theory Spec2Isabelle
  imports Main "HOL-Library.Sublist"
begin

section \<open>The Rancher exporter's gatherer (gather.go)\<close>

text \<open>
  A shallow embedding of \<^verbatim>\<open>gather.go\<close>: the record type decoded from the
  Rancher API, the classification loop \<^verbatim>\<open>processMetrics\<close>, the fetcher
  \<^verbatim>\<open>getJSON\<close>, the URL rewriting \<^verbatim>\<open>setEndpoint\<close> and the two
  accessors of the process-wide \<^verbatim>\<open>stackRef\<close> map. Go strings are byte
  sequences and are modelled as \<open>string\<close>; a Go \<^verbatim>\<open>error\<close> is a message, and
  \<open>None\<close> stands for \<^verbatim>\<open>nil\<close>.
\<close>

subsection \<open>Data\<close>

text \<open>One element of \<^verbatim>\<open>Data.Data\<close>, field by field.\<close>

record Datum =
  HealthState :: string
  Name :: string
  State :: string
  System :: bool
  Scale :: int
  HostName :: string
  ID :: string
  StackID :: string
  EnvID :: string
  BaseType :: string
  Type :: string
  AgentState :: string

type_synonym Data = "Datum list"

type_synonym error = string

subsection \<open>Logging\<close>

text \<open>
  The logger is an effect: each call appends one entry to a log. An entry keeps the
  level, the format string (for the \<^verbatim>\<open>...f\<close> variants) and the arguments as
  they are passed, unformatted.
\<close>

datatype level = Debug | Info | Warn | Error

datatype arg = Str string | Flag bool | Num int | Err error | Batch "Data option"

datatype log_entry = Log level "arg list" | Logf level string "arg list"

subsection \<open>Library functions of package strings and strconv\<close>

text \<open>
  \<^verbatim>\<open>strings.Replace(s, old, new, 1)\<close>: the first occurrence of \<open>old\<close> in \<open>s\<close>,
  scanning from the left, is replaced by \<open>new\<close>; without an occurrence \<open>s\<close> is
  returned. An empty \<open>old\<close> matches at the start of \<open>s\<close>.
\<close>

fun Replace1 :: "string \<Rightarrow> string \<Rightarrow> string \<Rightarrow> string" where
  "Replace1 [] old new = (if old = [] then new else [])"
| "Replace1 (c # cs) old new =
     (if prefix old (c # cs) then new @ drop (length old) (c # cs)
      else c # Replace1 cs old new)"

text \<open>\<^verbatim>\<open>strings.Contains(s, substr)\<close>.\<close>

fun Contains :: "string \<Rightarrow> string \<Rightarrow> bool" where
  "Contains [] substr = (substr = [])"
| "Contains (c # cs) substr = (if prefix substr (c # cs) then True else Contains cs substr)"

text \<open>\<^verbatim>\<open>strconv.FormatBool\<close>.\<close>

definition FormatBool :: "bool \<Rightarrow> string" where
  "FormatBool b = (if b then ''true'' else ''false'')"

subsection \<open>setEndpoint\<close>

definition setEndpoint :: "string \<Rightarrow> string \<Rightarrow> string" where
  "setEndpoint rancherURL component =
     (let endpoint = rancherURL @ ''/'' @ component @ ''/'';
          endpoint = Replace1 endpoint ''v1'' ''v2-beta''
      in endpoint)"

subsection \<open>The reference store\<close>

text \<open>
  \<^verbatim>\<open>stackRef\<close> is a process-wide \<^verbatim>\<open>map[string]string\<close>. Since
  \<^verbatim>\<open>retrieveStackRef\<close> ranges over it, the model is the list of its entries in
  the order one iteration visits them; Go leaves that order open, so every property
  below is stated for an arbitrary list. The declaration of the variable is not part of
  \<^verbatim>\<open>gather.go\<close>; the map is taken to be allocated.
\<close>

type_synonym store = "(string \<times> string) list"

text \<open>\<^verbatim>\<open>stackRef[stackID] = stackName\<close>, returning the map.\<close>

fun storeStackRef :: "store \<Rightarrow> string \<Rightarrow> string \<Rightarrow> store" where
  "storeStackRef [] stackID stackName = [(stackID, stackName)]"
| "storeStackRef ((key, val) # rest) stackID stackName =
     (if key = stackID then (stackID, stackName) # rest
      else (key, val) # storeStackRef rest stackID stackName)"

text \<open>
  The loop of \<^verbatim>\<open>retrieveStackRef\<close>: the result and the debug entry logged on a
  match. The test for the empty identifier sits inside the loop, as in the source.
\<close>

fun retrieveStackRef :: "store \<Rightarrow> string \<Rightarrow> string \<times> log_entry list" where
  "retrieveStackRef [] stackID = (''unknown'', [])"
| "retrieveStackRef ((key, val) # rest) stackID =
     (if stackID = '''' then (''unknown'', [])
      else if stackID = key then
        (val, [Logf Debug ''StackRef - Key is %s, Value is %s StackID is %s''
                 [Str key, Str val, Str stackID]])
      else retrieveStackRef rest stackID)"

subsection \<open>What gather.go calls in the rest of the exporter\<close>

text \<open>
  \<^verbatim>\<open>checkMetric\<close> and the three methods \<^verbatim>\<open>setHostMetrics\<close>,
  \<^verbatim>\<open>setStackMetrics\<close> and \<^verbatim>\<open>setServiceMetrics\<close> of the exporter are
  defined in other files. They are parameters of the model: the predicate is any
  function of the endpoint and the type, and each method is any function of its
  arguments and the exporter's state \<open>'e\<close> that returns an error or \<^verbatim>\<open>nil\<close>
  and the exporter's next state. They are taken not to touch \<^verbatim>\<open>stackRef\<close>.
\<close>

record 'e deps =
  checkMetric :: "string \<Rightarrow> string \<Rightarrow> bool"
  setHostMetrics :: "string \<Rightarrow> string \<Rightarrow> string \<Rightarrow> 'e \<Rightarrow> error option \<times> 'e"
  setStackMetrics :: "string \<Rightarrow> string \<Rightarrow> string \<Rightarrow> string \<Rightarrow> 'e \<Rightarrow> error option \<times> 'e"
  setServiceMetrics ::
    "string \<Rightarrow> string \<Rightarrow> string \<Rightarrow> string \<Rightarrow> int \<Rightarrow> 'e \<Rightarrow> error option \<times> 'e"

text \<open>One invocation of a metric method, with the arguments it was given.\<close>

datatype call =
    HostMetrics string string string
  | StackMetrics string string string string
  | ServiceMetrics string string string string int

text \<open>
  Everything \<^verbatim>\<open>processMetrics\<close> can change: the exporter, the reference store
  and the log, together with the trace of the metric calls made so far, each with the
  error it returned.
\<close>

record 'e world =
  exporter :: 'e
  stackRef :: store
  logs :: "log_entry list"
  calls :: "(call \<times> error option) list"

definition logged :: "log_entry list \<Rightarrow> 'e world \<Rightarrow> 'e world" where
  "logged es w = w\<lparr>logs := logs w @ es\<rparr>"

definition called :: "call \<Rightarrow> error option \<times> 'e \<Rightarrow> 'e world \<Rightarrow> 'e world" where
  "called c r w = w\<lparr>exporter := snd r, calls := calls w @ [(c, fst r)]\<rparr>"

subsection \<open>processMetrics\<close>

text \<open>The three branches of the dispatch on the endpoint, in the order of the source.\<close>

definition hostsBranch :: "'e deps \<Rightarrow> Datum \<Rightarrow> 'e world \<Rightarrow> 'e world" where
  "hostsBranch d x w =
     (let s = HostName x;
          s = (if Name x \<noteq> [] then Name x else s);
          r = setHostMetrics d s (State x) (AgentState x) (exporter w);
          w = called (HostMetrics s (State x) (AgentState x)) r w
      in case fst r of
           Some err \<Rightarrow>
             logged [Logf Error ''Error processing host metrics: %s'' [Err err],
                     Logf Error ''Attempt Failed to set %s, %s, [agent] %s ''
                       [Str (HostName x), Str (State x), Str (AgentState x)]] w
         | None \<Rightarrow> w)"

definition stacksBranch :: "'e deps \<Rightarrow> Datum \<Rightarrow> 'e world \<Rightarrow> 'e world" where
  "stacksBranch d x w =
     (let w = w\<lparr>stackRef := storeStackRef (stackRef w) (ID x) (Name x)\<rparr>;
          r = setStackMetrics d (Name x) (State x) (HealthState x) (FormatBool (System x))
                (exporter w);
          w = called (StackMetrics (Name x) (State x) (HealthState x) (FormatBool (System x))) r w
      in case fst r of
           Some err \<Rightarrow>
             logged [Logf Error ''Error processing stack metrics: %s'' [Err err],
                     Logf Error ''Attempt Failed to set %s, %s, %s, %t''
                       [Str (Name x), Str (State x), Str (HealthState x), Flag (System x)]] w
         | None \<Rightarrow> w)"

definition servicesBranch :: "'e deps \<Rightarrow> Datum \<Rightarrow> 'e world \<Rightarrow> 'e world" where
  "servicesBranch d x w =
     (let found = retrieveStackRef (stackRef w) (StackID x);
          stackName = fst found;
          w = logged (snd found) w;
          w = (if stackName = ''unknown''
               then logged [Logf Warn ''Failed to obtain stack_name for %s from the API''
                              [Str (Name x)]] w
               else w);
          r = setServiceMetrics d (Name x) stackName (State x) (HealthState x) (Scale x)
                (exporter w);
          w = called (ServiceMetrics (Name x) stackName (State x) (HealthState x) (Scale x)) r w
      in case fst r of
           Some err \<Rightarrow>
             logged [Logf Error ''Error processing service metrics: %s'' [Err err],
                     Logf Error ''Attempt Failed to set %s, %s, %s, %s, %d''
                       [Str (Name x), Str stackName, Str (State x), Str (HealthState x),
                        Num (Scale x)]] w
         | None \<Rightarrow>
             called (ServiceMetrics (Name x) stackName (State x) (HealthState x) (Scale x))
               (setServiceMetrics d (Name x) stackName (State x) (HealthState x) (Scale x)
                  (exporter w)) w)"

text \<open>
  The body of the loop for one record \<open>x\<close>. Every \<^verbatim>\<open>continue\<close> and the end of
  the body lead to the next record, so the body maps a world to a world.
\<close>

definition processRecord :: "'e deps \<Rightarrow> string \<Rightarrow> bool \<Rightarrow> Datum \<Rightarrow> 'e world \<Rightarrow> 'e world" where
  "processRecord d endpoint hideSys x w =
     (if hideSys = True \<and> System x = True then w
      else
        let dataType = BaseType x;
            dataType = (if dataType = [] then Type x else dataType)
        in if checkMetric d endpoint dataType = False then w
           else
             let w = logged [Log Debug [Str ''Processing metrics for %s'', Str endpoint]] w
             in if endpoint = ''hosts'' then hostsBranch d x w
                else if endpoint = ''stacks'' then stacksBranch d x w
                else if endpoint = ''services'' then servicesBranch d x w
                else w)"

fun processRecords :: "'e deps \<Rightarrow> string \<Rightarrow> bool \<Rightarrow> Datum list \<Rightarrow> 'e world \<Rightarrow> 'e world" where
  "processRecords d endpoint hideSys [] w = w"
| "processRecords d endpoint hideSys (x # xs) w =
     processRecords d endpoint hideSys xs (processRecord d endpoint hideSys x w)"

text \<open>
  \<^verbatim>\<open>processMetrics\<close> ranges over \<^verbatim>\<open>data.Data\<close> and returns \<^verbatim>\<open>nil\<close>. The
  pointer \<^verbatim>\<open>data\<close> is taken to be valid, and the channel argument, which the
  function never uses, is left out.
\<close>

definition processMetrics ::
  "'e deps \<Rightarrow> Data \<Rightarrow> string \<Rightarrow> bool \<Rightarrow> 'e world \<Rightarrow> error option \<times> 'e world" where
  "processMetrics d data endpoint hideSys w = (None, processRecords d endpoint hideSys data w)"

text \<open>
  The arguments of the metric calls that a run of \<^verbatim>\<open>processMetrics\<close> makes,
  as a set: the observations of the run.
\<close>

definition observed :: "'e deps \<Rightarrow> Data \<Rightarrow> string \<Rightarrow> bool \<Rightarrow> 'e world \<Rightarrow> call set" where
  "observed d data endpoint hideSys w =
     fst ` set (calls (snd (processMetrics d data endpoint hideSys (w\<lparr>calls := []\<rparr>))))"

subsection \<open>getJSON and gatherData\<close>

text \<open>
  The HTTP client and the JSON decoder are outside the program. \<^verbatim>\<open>http.NewRequest\<close>
  and \<^verbatim>\<open>client.Do\<close> return a pointer and an error, either of which may be
  \<^verbatim>\<open>nil\<close>. \<^verbatim>\<open>Do\<close> receives the request after \<^verbatim>\<open>SetBasicAuth\<close>, that is
  with the two keys. The target of \<^verbatim>\<open>Decode\<close> is the address of a \<^verbatim>\<open>*Data\<close>:
  the decoder returns an error or \<^verbatim>\<open>nil\<close> and leaves the pointer at a batch or, for
  the JSON value \<^verbatim>\<open>null\<close>, at \<^verbatim>\<open>nil\<close> (\<open>None\<close>).
\<close>

record Response =
  Status :: string
  Body :: string

record 'r http =
  NewRequest :: "string \<Rightarrow> string \<Rightarrow> 'r option \<times> error option"
  Do :: "'r \<Rightarrow> string \<Rightarrow> string \<Rightarrow> Response option \<times> error option"
  Decode :: "string \<Rightarrow> Data option \<Rightarrow> error option \<times> Data option"

text \<open>A call either returns or panics on a \<^verbatim>\<open>nil\<close> pointer.\<close>

datatype 'a outcome = Panic string | Return 'a

definition nilDereference :: string where
  "nilDereference = ''invalid memory address or nil pointer dereference''"

text \<open>
  \<^verbatim>\<open>getJSON\<close>, with the log it writes. None of its three tests returns: after
  logging, control goes on to the next statement. The counter, the timing and the
  closing of the body do not bear on the result and are left out.
\<close>

definition getJSON ::
  "'r http \<Rightarrow> string \<Rightarrow> string \<Rightarrow> string \<Rightarrow> Data option \<Rightarrow>
     (error option \<times> Data option) outcome \<times> log_entry list" where
  "getJSON h url accessKey secretKey target =
     (let lg = [Log Info [Str ''Scraping: '', Str url]];
          made = NewRequest h ''GET'' url;
          lg = (case snd made of
                  Some err \<Rightarrow> lg @ [Log Error [Str ''Error Collecting JSON from API: '', Err err]]
                | None \<Rightarrow> lg)
      in case fst made of
           None \<Rightarrow> (Panic nilDereference, lg)
         | Some req \<Rightarrow>
             (let done = Do h req accessKey secretKey;
                  lg = (case snd done of
                          Some err \<Rightarrow>
                            lg @ [Log Error [Str ''Error Collecting JSON from API: '', Err err]]
                        | None \<Rightarrow> lg)
              in (case fst done of
                    None \<Rightarrow> (Panic nilDereference, lg)
                  | Some resp \<Rightarrow>
                      (let lg = (if \<not> Contains (Status resp) ''200''
                                 then lg @ [Log Error [Str ''Error returned from API: '',
                                                       Str (Status resp)]]
                                 else lg);
                           respFormatted = Decode h (Body resp) target
                       in (Return respFormatted, lg)))))"

text \<open>
  \<^verbatim>\<open>gatherData\<close>: \<^verbatim>\<open>nil\<close> and the error of \<^verbatim>\<open>getJSON\<close>, or the pointer
  as the decoder left it and \<^verbatim>\<open>nil\<close> for the error. \<^verbatim>\<open>new(Data)\<close> points to
  the empty batch.
\<close>

definition gatherData ::
  "'r http \<Rightarrow> string \<Rightarrow> string \<Rightarrow> string \<Rightarrow> string \<Rightarrow>
     (Data option \<times> error option) outcome \<times> log_entry list" where
  "gatherData h rancherURL accessKey secretKey endpoint =
     (let url = setEndpoint rancherURL endpoint;
          fetched = getJSON h url accessKey secretKey (Some [])
      in case fst fetched of
           Panic msg \<Rightarrow> (Panic msg, snd fetched)
         | Return (Some err, data) \<Rightarrow>
             (Return (None, Some err),
              snd fetched @ [Log Error [Str ''Error getting JSON from endpoint '', Str endpoint]])
         | Return (None, data) \<Rightarrow>
             (Return (data, None),
              snd fetched @ [Logf Debug (''JSON Fetched for: '' @ endpoint @ '': '') [Batch data]]))"

text \<open>
  Modelled from the spec: \<^verbatim>\<open>checkMetric\<close>, the category-compatibility predicate
  keyed by endpoint name, which is defined outside \<^verbatim>\<open>gather.go\<close>. The spec fixes
  one of its values: a record whose two type attributes are both empty is
  category-mismatched, so the empty category matches no endpoint. Which non-empty
  categories an endpoint expects is left open by the spec and is the parameter
  \<open>expected\<close>.
\<close>

definition checkMetricSpec :: "(string \<Rightarrow> string \<Rightarrow> bool) \<Rightarrow> string \<Rightarrow> string \<Rightarrow> bool" where
  "checkMetricSpec expected endpoint category =
     (if category = [] then False else expected endpoint category)"

subsection \<open>Vocabulary of the properties\<close>

text \<open>
  A record is selected when it passes the two tests at the head of the loop: it is not
  a system record hidden by the flag, and \<^verbatim>\<open>checkMetric\<close> accepts its type for
  the endpoint.
\<close>

definition selected :: "'e deps \<Rightarrow> string \<Rightarrow> bool \<Rightarrow> Datum \<Rightarrow> bool" where
  "selected d endpoint hideSys x =
     (\<not> (hideSys \<and> System x) \<and>
      checkMetric d endpoint (if BaseType x = [] then Type x else BaseType x))"

text \<open>
  The metric call that the dispatch makes for a selected record, given the reference
  store at that moment; no call for an endpoint other than the three.
\<close>

definition emission :: "store \<Rightarrow> string \<Rightarrow> Datum \<Rightarrow> call list" where
  "emission st endpoint x =
     (if endpoint = ''hosts'' then
        [HostMetrics (if Name x \<noteq> [] then Name x else HostName x) (State x) (AgentState x)]
      else if endpoint = ''stacks'' then
        [StackMetrics (Name x) (State x) (HealthState x) (FormatBool (System x))]
      else if endpoint = ''services'' then
        [ServiceMetrics (Name x) (fst (retrieveStackRef st (StackID x))) (State x)
           (HealthState x) (Scale x)]
      else [])"

subsection \<open>Concrete instances\<close>

text \<open>
  An exporter that counts the calls it receives and rejects every metric named
  \<open>bad\<close>, with a type check that expects the endpoint to be the plural of the type.
\<close>

definition exampleDeps :: "nat deps" where
  "exampleDeps =
     \<lparr>checkMetric = (\<lambda>endpoint t. endpoint = t @ ''s''),
      setHostMetrics = (\<lambda>n s a e. (if n = ''bad'' then Some ''rejected'' else None, Suc e)),
      setStackMetrics = (\<lambda>n s h sys e. (if n = ''bad'' then Some ''rejected'' else None, Suc e)),
      setServiceMetrics =
        (\<lambda>n sn s h sc e. (if n = ''bad'' then Some ''rejected'' else None, Suc e))\<rparr>"

definition emptyWorld :: "nat world" where
  "emptyWorld = \<lparr>exporter = 0, stackRef = [], logs = [], calls = []\<rparr>"

definition exampleRecord :: Datum where
  "exampleRecord =
     \<lparr>HealthState = ''healthy'', Name = ''web'', State = ''active'', System = False,
      Scale = 2, HostName = ''h1'', ID = ''1s1'', StackID = ''1st1'', EnvID = ''1a5'',
      BaseType = [], Type = ''service'', AgentState = []\<rparr>"

text \<open>
  A transport whose server answers \<open>404 Not Found\<close> with the body \<open>{}\<close>, which
  decodes without error and leaves the target as it is; and one that cannot connect.
  Their decoder sets the pointer to \<^verbatim>\<open>nil\<close> on the body \<open>null\<close>.
\<close>

definition notFoundHttp :: "unit http" where
  "notFoundHttp =
     \<lparr>NewRequest = (\<lambda>method url. (Some (), None)),
      Do = (\<lambda>req accessKey secretKey.
              (Some \<lparr>Status = ''404 Not Found'', Body = ''{}''\<rparr>, None)),
      Decode = (\<lambda>body target.
                  if body = ''{}'' then (None, target)
                  else if body = ''null'' then (None, None)
                  else (Some ''invalid character'', target))\<rparr>"

definition refusedHttp :: "unit http" where
  "refusedHttp =
     \<lparr>NewRequest = (\<lambda>method url. (Some (), None)),
      Do = (\<lambda>req accessKey secretKey. (None, Some ''connection refused'')),
      Decode = (\<lambda>body target.
                  if body = ''{}'' then (None, target)
                  else if body = ''null'' then (None, None)
                  else (Some ''invalid character'', target))\<rparr>"

section \<open>Properties\<close>

subsection \<open>Library facts\<close>

lemma Replace1_absent: "\<not> sublist old s \<Longrightarrow> Replace1 s old new = s"
proof (induction s)
  case Nil
  then show ?case by auto
next
  case (Cons c cs)
  from Cons.prems have "\<not> prefix old (c # cs)"
    using prefix_imp_sublist by blast
  moreover from Cons.prems have "\<not> sublist old cs"
    by (auto simp: sublist_Cons_right)
  ultimately show ?case using Cons.IH by simp
qed

lemma Replace1_pair_first:
  assumes "a \<noteq> b" and "\<not> sublist [a, b] pre"
  shows "Replace1 (pre @ [a, b] @ post) [a, b] new = pre @ new @ post"
  using assms(2)
proof (induction pre)
  case Nil
  then show ?case by simp
next
  case (Cons c pre)
  have no_pre: "\<not> prefix [a, b] (c # pre)"
    using Cons.prems prefix_imp_sublist by blast
  have "\<not> prefix [a, b] (c # pre @ [a, b] @ post)"
  proof (cases pre)
    case Nil
    then show ?thesis using assms(1) by auto
  next
    case (Cons d pre')
    with no_pre show ?thesis by simp
  qed
  then have step: "Replace1 ((c # pre) @ [a, b] @ post) [a, b] new =
      c # Replace1 (pre @ [a, b] @ post) [a, b] new"
    by (simp only: append_Cons Replace1.simps if_False)
  have "\<not> sublist [a, b] pre"
    using Cons.prems by (auto simp: sublist_Cons_right)
  then show ?case using Cons.IH step by simp
qed

lemma Replace1_v1_first:
  "\<not> sublist ''v1'' pre \<Longrightarrow> Replace1 (pre @ ''v1'' @ post) ''v1'' new = pre @ new @ post"
  by (rule Replace1_pair_first) simp_all

lemma retrieveStackRef_map_of:
  "fst (retrieveStackRef st stackID) =
     (if stackID = '''' then ''unknown''
      else case map_of st stackID of None \<Rightarrow> ''unknown'' | Some v \<Rightarrow> v)"
  by (induction st) auto

lemma map_of_storeStackRef:
  "map_of (storeStackRef st stackID stackName) = (map_of st)(stackID \<mapsto> stackName)"
  by (induction st) (auto simp: fun_eq_iff)

lemma retrieve_absent:
  "stackID \<notin> fst ` set st \<Longrightarrow> fst (retrieveStackRef st stackID) = ''unknown''"
  by (induction st) auto

subsection \<open>The endpoint, the reference store and the fetcher\<close>

text \<open>
  C4. For every base URL and every category, \<open>setEndpoint\<close> returns
  \<open>base + "/" + category + "/"\<close> in which only the first occurrence of \<open>"v1"\<close>
  is replaced by \<open>"v2-beta"\<close>: a string without \<open>"v1"\<close> is returned as it is; when
  the string splits as \<open>pre @ "v1" @ post\<close> with no \<open>"v1"\<close> inside \<open>pre\<close>, the
  result is \<open>pre @ "v2-beta" @ post\<close> (so \<open>post\<close> is kept, later occurrences
  included). For base \<open>"http://rancher.local/v1"\<close> and category \<open>"hosts"\<close> the
  result is \<open>"http://rancher.local/v2-beta/hosts/"\<close>.
\<close>

theorem setEndpoint_first_v1:
  "(\<not> sublist ''v1'' (base @ ''/'' @ category @ ''/'') \<longrightarrow>
      setEndpoint base category = base @ ''/'' @ category @ ''/'') \<and>
   (base @ ''/'' @ category @ ''/'' = pre @ ''v1'' @ post \<and> \<not> sublist ''v1'' pre \<longrightarrow>
      setEndpoint base category = pre @ ''v2-beta'' @ post) \<and>
   setEndpoint ''http://rancher.local/v1'' ''hosts'' = ''http://rancher.local/v2-beta/hosts/''"
proof (intro conjI impI)
  assume "\<not> sublist ''v1'' (base @ ''/'' @ category @ ''/'')"
  then show "setEndpoint base category = base @ ''/'' @ category @ ''/''"
    unfolding setEndpoint_def Let_def by (rule Replace1_absent)
next
  assume split: "base @ ''/'' @ category @ ''/'' = pre @ ''v1'' @ post \<and> \<not> sublist ''v1'' pre"
  then have "Replace1 (pre @ ''v1'' @ post) ''v1'' ''v2-beta'' = pre @ ''v2-beta'' @ post"
    by (intro Replace1_v1_first) simp
  with split show "setEndpoint base category = pre @ ''v2-beta'' @ post"
    unfolding setEndpoint_def Let_def by metis
next
  show "setEndpoint ''http://rancher.local/v1'' ''hosts'' = ''http://rancher.local/v2-beta/hosts/''"
    by (simp add: setEndpoint_def)
qed

theorem setEndpoint_first_v1_witness:
  "\<not> sublist ''v1'' ''http://rancher.local/'' \<and>
   setEndpoint ''http://rancher.local/v1'' ''hosts'' = ''http://rancher.local/'' @ ''v2-beta'' @ ''/hosts/'' \<and>
   \<not> sublist ''v1'' (''http://rancher.local'' @ ''/'' @ ''hosts'' @ ''/'') \<and>
   setEndpoint ''http://rancher.local'' ''hosts'' = ''http://rancher.local/hosts/''"
proof -
  have absent: "\<not> sublist ''v1'' ''http://rancher.local/''"
    by (simp add: sublist_Cons_right)
  have absent': "\<not> sublist ''v1'' (''http://rancher.local'' @ ''/'' @ ''hosts'' @ ''/'')"
    by (simp add: sublist_Cons_right)
  have split: "''http://rancher.local/v1'' @ ''/'' @ ''hosts'' @ ''/'' =
      ''http://rancher.local/'' @ ''v1'' @ ''/hosts/''"
    by simp
  from setEndpoint_first_v1 [of "''http://rancher.local/v1''" "''hosts''"
      "''http://rancher.local/''" "''/hosts/''"] split absent
  have "setEndpoint ''http://rancher.local/v1'' ''hosts'' =
      ''http://rancher.local/'' @ ''v2-beta'' @ ''/hosts/''"
    by blast
  moreover from setEndpoint_first_v1 [of "''http://rancher.local''" "''hosts''"] absent'
  have "setEndpoint ''http://rancher.local'' ''hosts'' = ''http://rancher.local/hosts/''"
    by simp
  ultimately show ?thesis using absent absent' by blast
qed

text \<open>
  C3. Round trip of the reference store, for every state of the store: storing
  \<open>"s1"\<close> with \<open>"frontend"\<close> and retrieving \<open>"s1"\<close> gives \<open>"frontend"\<close>;
  retrieving the empty identifier, or an identifier that is not a key of the store, gives
  \<open>"unknown"\<close>; storing \<open>"frontend"\<close> and then \<open>"frontend-v2"\<close> under
  \<open>"s1"\<close> and retrieving \<open>"s1"\<close> gives \<open>"frontend-v2"\<close>. More generally a
  store followed by a retrieve of the same non-empty identifier gives the name stored.
\<close>

theorem stackRef_round_trip:
  "fst (retrieveStackRef (storeStackRef st ''s1'' ''frontend'') ''s1'') = ''frontend'' \<and>
   fst (retrieveStackRef st []) = ''unknown'' \<and>
   (stackID \<notin> fst ` set st \<longrightarrow> fst (retrieveStackRef st stackID) = ''unknown'') \<and>
   fst (retrieveStackRef
          (storeStackRef (storeStackRef st ''s1'' ''frontend'') ''s1'' ''frontend-v2'') ''s1'') =
     ''frontend-v2'' \<and>
   (stackID \<noteq> [] \<longrightarrow>
      fst (retrieveStackRef (storeStackRef st stackID stackName) stackID) = stackName)"
proof (intro conjI impI)
  show "fst (retrieveStackRef (storeStackRef st ''s1'' ''frontend'') ''s1'') = ''frontend''"
    by (simp add: retrieveStackRef_map_of map_of_storeStackRef)
  show "fst (retrieveStackRef st []) = ''unknown''"
    by (simp add: retrieveStackRef_map_of)
  show "fst (retrieveStackRef st stackID) = ''unknown''" if "stackID \<notin> fst ` set st"
    using that by (rule retrieve_absent)
  show "fst (retrieveStackRef
          (storeStackRef (storeStackRef st ''s1'' ''frontend'') ''s1'' ''frontend-v2'') ''s1'') =
     ''frontend-v2''"
    by (simp add: retrieveStackRef_map_of map_of_storeStackRef)
  show "fst (retrieveStackRef (storeStackRef st stackID stackName) stackID) = stackName"
    if "stackID \<noteq> []"
    using that by (simp add: retrieveStackRef_map_of map_of_storeStackRef)
qed

theorem stackRef_round_trip_witness:
  "''unknown-id'' \<notin> fst ` set [(''s1'', ''frontend'')] \<and>
   fst (retrieveStackRef [(''s1'', ''frontend'')] ''unknown-id'') = ''unknown'' \<and>
   ''s2'' \<noteq> [] \<and>
   fst (retrieveStackRef (storeStackRef [(''s1'', ''frontend'')] ''s2'' ''backend'') ''s2'') = ''backend''"
  using stackRef_round_trip [of "[(''s1'', ''frontend'')]" "''unknown-id''"]
    stackRef_round_trip [of "[(''s1'', ''frontend'')]" "''s2''" "''backend''"]
  by simp

lemma getJSON_ignores_status:
  assumes "NewRequest h ''GET'' url = (Some req, None)"
    and "Do h req accessKey secretKey = (Some resp, None)"
  shows "fst (getJSON h url accessKey secretKey target) = Return (Decode h (Body resp) target)"
  using assms by (simp add: getJSON_def Let_def)

lemma gatherData_nil_batch:
  assumes "NewRequest h ''GET'' (setEndpoint rancherURL endpoint) = (Some req, None)"
    and "Do h req accessKey secretKey = (Some resp, None)"
    and "Decode h (Body resp) (Some []) = (None, None)"
  shows "fst (gatherData h rancherURL accessKey secretKey endpoint) = Return (None, None)"
  using assms by (simp add: gatherData_def getJSON_def Let_def)

lemma getJSON_nil_response:
  assumes "NewRequest h ''GET'' url = (Some req, None)"
    and "Do h req accessKey secretKey = (None, err)"
  shows "fst (getJSON h url accessKey secretKey target) = Panic nilDereference"
  using assms by (simp add: getJSON_def Let_def)

text \<open>
  C1. The claim: a fetch whose response status is not a success makes \<open>getJSON\<close>
  fail, and no batch is produced. The code at a \<open>404 Not Found\<close> response whose
  body decodes: \<open>getJSON\<close> logs the status and returns \<^verbatim>\<open>nil\<close>, and
  \<open>gatherData\<close> returns the (empty) batch with no error.
\<close>

theorem getJSON_not_found_succeeds:
  "getJSON notFoundHttp ''http://rancher.local/v2-beta/hosts/'' ''key'' ''secret'' (Some []) =
     (Return (None, Some []),
      [Log Info [Str ''Scraping: '', Str ''http://rancher.local/v2-beta/hosts/''],
       Log Error [Str ''Error returned from API: '', Str ''404 Not Found'']]) \<and>
   fst (gatherData notFoundHttp ''http://rancher.local/v1'' ''key'' ''secret'' ''hosts'') =
     Return (Some [], None)"
  by (simp add: getJSON_def gatherData_def notFoundHttp_def setEndpoint_def)

text \<open>
  C2. The claim: after a network error \<open>getJSON\<close> logs and gives the step up
  without an invalid dereference of the response. The code when \<^verbatim>\<open>client.Do\<close>
  returns no response and an error: the error is logged, control reaches
  \<^verbatim>\<open>resp.Status\<close> with \<^verbatim>\<open>resp\<close> being \<^verbatim>\<open>nil\<close>, and the call panics;
  \<open>gatherData\<close> does not recover.
\<close>

theorem getJSON_network_error_panics:
  "getJSON refusedHttp ''http://rancher.local/v2-beta/hosts/'' ''key'' ''secret'' (Some []) =
     (Panic nilDereference,
      [Log Info [Str ''Scraping: '', Str ''http://rancher.local/v2-beta/hosts/''],
       Log Error [Str ''Error Collecting JSON from API: '', Err ''connection refused'']]) \<and>
   fst (gatherData refusedHttp ''http://rancher.local/v1'' ''key'' ''secret'' ''hosts'') =
     Panic nilDereference"
  by (simp add: getJSON_def gatherData_def refusedHttp_def setEndpoint_def)

subsection \<open>Facts about the loop\<close>

lemma logged_fields:
  "exporter (logged es w) = exporter w" "stackRef (logged es w) = stackRef w"
  "logs (logged es w) = logs w @ es" "calls (logged es w) = calls w"
  by (simp_all add: logged_def)

lemma called_fields:
  "exporter (called c r w) = snd r" "stackRef (called c r w) = stackRef w"
  "logs (called c r w) = logs w" "calls (called c r w) = calls w @ [(c, fst r)]"
  by (simp_all add: called_def)

lemma processRecord_unselected:
  assumes "\<not> selected d endpoint hideSys x"
  shows "processRecord d endpoint hideSys x w = w"
proof (cases "hideSys \<and> System x")
  case True
  then show ?thesis by (simp add: processRecord_def)
next
  case False
  with assms have "\<not> checkMetric d endpoint (if BaseType x = [] then Type x else BaseType x)"
    by (simp add: selected_def)
  with False show ?thesis by (simp add: processRecord_def Let_def)
qed

lemma processRecord_selected:
  assumes "selected d endpoint hideSys x"
  shows "processRecord d endpoint hideSys x w =
       (if endpoint = ''hosts'' then
          hostsBranch d x (logged [Log Debug [Str ''Processing metrics for %s'', Str endpoint]] w)
        else if endpoint = ''stacks'' then
          stacksBranch d x (logged [Log Debug [Str ''Processing metrics for %s'', Str endpoint]] w)
        else if endpoint = ''services'' then
          servicesBranch d x (logged [Log Debug [Str ''Processing metrics for %s'', Str endpoint]] w)
        else logged [Log Debug [Str ''Processing metrics for %s'', Str endpoint]] w)"
proof -
  from assms have keep: "\<not> (hideSys \<and> System x)"
    and ok: "checkMetric d endpoint (if BaseType x = [] then Type x else BaseType x)"
    by (simp_all add: selected_def)
  have "processRecord d endpoint hideSys x w =
      (let dataType = BaseType x;
           dataType = (if dataType = [] then Type x else dataType)
       in if checkMetric d endpoint dataType = False then w
          else
            let w = logged [Log Debug [Str ''Processing metrics for %s'', Str endpoint]] w
            in if endpoint = ''hosts'' then hostsBranch d x w
               else if endpoint = ''stacks'' then stacksBranch d x w
               else if endpoint = ''services'' then servicesBranch d x w
               else w)"
    using keep unfolding processRecord_def by (simp only: if_False simp_thms)
  also have "\<dots> = (let w = logged [Log Debug [Str ''Processing metrics for %s'', Str endpoint]] w
            in if endpoint = ''hosts'' then hostsBranch d x w
               else if endpoint = ''stacks'' then stacksBranch d x w
               else if endpoint = ''services'' then servicesBranch d x w
               else w)"
    using ok unfolding Let_def by (simp only: simp_thms if_False)
  finally show ?thesis unfolding Let_def .
qed

lemma hostsBranch_calls:
  "calls (hostsBranch d x w) = calls w @
     [(HostMetrics (if Name x \<noteq> [] then Name x else HostName x) (State x) (AgentState x),
       fst (setHostMetrics d (if Name x \<noteq> [] then Name x else HostName x) (State x)
              (AgentState x) (exporter w)))]"
  by (simp add: hostsBranch_def Let_def logged_fields called_fields split: option.split)

lemma hostsBranch_stackRef: "stackRef (hostsBranch d x w) = stackRef w"
  by (simp add: hostsBranch_def Let_def logged_fields called_fields split: option.split)

lemma stacksBranch_calls:
  "calls (stacksBranch d x w) = calls w @
     [(StackMetrics (Name x) (State x) (HealthState x) (FormatBool (System x)),
       fst (setStackMetrics d (Name x) (State x) (HealthState x) (FormatBool (System x))
              (exporter w)))]"
  by (simp add: stacksBranch_def Let_def logged_fields called_fields split: option.split)

lemma servicesBranch_calls_set:
  "fst ` set (calls (servicesBranch d x w)) = fst ` set (calls w) \<union>
     {ServiceMetrics (Name x) (fst (retrieveStackRef (stackRef w) (StackID x))) (State x)
        (HealthState x) (Scale x)}"
  by (simp add: servicesBranch_def Let_def logged_fields called_fields split: option.split)

lemma servicesBranch_stackRef: "stackRef (servicesBranch d x w) = stackRef w"
  by (simp add: servicesBranch_def Let_def logged_fields called_fields split: option.split)

lemma processRecord_stackRef:
  "endpoint \<noteq> ''stacks'' \<Longrightarrow> stackRef (processRecord d endpoint hideSys x w) = stackRef w"
  by (cases "selected d endpoint hideSys x")
    (simp_all add: processRecord_unselected processRecord_selected Let_def logged_fields
      hostsBranch_stackRef servicesBranch_stackRef)

lemma processRecords_stackRef:
  "endpoint \<noteq> ''stacks'' \<Longrightarrow> stackRef (processRecords d endpoint hideSys xs w) = stackRef w"
  by (induction xs arbitrary: w) (simp_all add: processRecord_stackRef)

lemma processRecords_append:
  "processRecords d endpoint hideSys (xs @ ys) w =
     processRecords d endpoint hideSys ys (processRecords d endpoint hideSys xs w)"
  by (induction xs arbitrary: w) simp_all

lemma emission_store:
  "endpoint \<noteq> ''services'' \<Longrightarrow> emission st endpoint x = emission st' endpoint x"
  by (simp add: emission_def)

lemma emission_after_record:
  "emission (stackRef (processRecord d endpoint hideSys y w)) endpoint x =
     emission (stackRef w) endpoint x"
proof (cases "endpoint = ''services''")
  case True
  then show ?thesis by (simp add: processRecord_stackRef)
next
  case False
  then show ?thesis by (rule emission_store)
qed

lemma emission_after_records:
  "emission (stackRef (processRecords d endpoint hideSys ys w)) endpoint x =
     emission (stackRef w) endpoint x"
  by (induction ys arbitrary: w) (simp_all add: emission_after_record)

lemma processRecord_calls_set:
  "fst ` set (calls (processRecord d endpoint hideSys x w)) =
     fst ` set (calls w) \<union>
       (if selected d endpoint hideSys x then set (emission (stackRef w) endpoint x) else {})"
proof (cases "selected d endpoint hideSys x")
  case False
  then show ?thesis by (simp add: processRecord_unselected)
next
  case True
  then show ?thesis
    by (simp add: processRecord_selected Let_def emission_def logged_fields hostsBranch_calls
        stacksBranch_calls servicesBranch_calls_set)
qed

lemma processRecords_calls_set:
  "fst ` set (calls (processRecords d endpoint hideSys xs w)) =
     fst ` set (calls w) \<union>
       (\<Union>x \<in> {x \<in> set xs. selected d endpoint hideSys x}. set (emission (stackRef w) endpoint x))"
proof (induction xs arbitrary: w)
  case Nil
  then show ?case by simp
next
  case (Cons y ys)
  show ?case
    by (simp only: processRecords.simps Cons.IH processRecord_calls_set emission_after_record)
      auto
qed

lemma observed_emissions:
  "observed d data endpoint hideSys w =
     (\<Union>x \<in> {x \<in> set data. selected d endpoint hideSys x}. set (emission (stackRef w) endpoint x))"
  by (simp add: observed_def processMetrics_def processRecords_calls_set)

lemma processRecord_hide:
  "processRecord d endpoint True x w =
     (if System x then w else processRecord d endpoint False x w)"
  by (simp add: processRecord_def)

lemma processRecords_hide:
  "processRecords d endpoint True xs w =
     processRecords d endpoint False (filter (\<lambda>x. \<not> System x) xs) w"
  by (induction xs arbitrary: w) (simp_all add: processRecord_hide)

lemma remdups_adj_absorb: "remdups_adj (remdups_adj xs @ ys) = remdups_adj (xs @ ys)"
proof (induction xs rule: remdups_adj.induct)
  case 1
  then show ?case by simp
next
  case (2 x)
  then show ?case by simp
next
  case (3 x y xs)
  show ?case
  proof (cases "x = y")
    case True
    with 3 show ?thesis by simp
  next
    case False
    obtain zs where zs: "remdups_adj (y # xs) = y # zs"
      by (metis remdups_adj_Cons_alt)
    have "remdups_adj (remdups_adj (x # y # xs) @ ys) = remdups_adj (x # (y # zs) @ ys)"
      using False zs by simp
    also have "\<dots> = x # remdups_adj ((y # zs) @ ys)"
      using False by simp
    also have "\<dots> = x # remdups_adj ((y # xs) @ ys)"
      using 3(2) [OF False] zs by simp
    also have "\<dots> = remdups_adj ((x # y # xs) @ ys)"
      using False by simp
    finally show ?thesis .
  qed
qed

lemma remdups_adj_append_cong:
  assumes "remdups_adj xs = remdups_adj xs'"
  shows "remdups_adj (xs @ ys) = remdups_adj (xs' @ ys)"
  by (metis assms remdups_adj_absorb)

lemma servicesBranch_trace:
  "remdups_adj (map fst (calls (servicesBranch d x w))) =
     remdups_adj (map fst (calls w) @
       [ServiceMetrics (Name x) (fst (retrieveStackRef (stackRef w) (StackID x))) (State x)
          (HealthState x) (Scale x)])"
  by (cases "fst (retrieveStackRef (stackRef w) (StackID x)) = ''unknown''")
    (simp_all add: servicesBranch_def Let_def logged_fields called_fields remdups_adj_append_two
      split: option.split)

lemma processRecord_trace:
  "remdups_adj (map fst (calls (processRecord d endpoint hideSys x w))) =
     remdups_adj (map fst (calls w) @
       (if selected d endpoint hideSys x then emission (stackRef w) endpoint x else []))"
proof (cases "selected d endpoint hideSys x")
  case False
  then show ?thesis by (simp add: processRecord_unselected)
next
  case True
  then show ?thesis
    by (simp add: processRecord_selected emission_def logged_fields hostsBranch_calls
        stacksBranch_calls servicesBranch_trace)
qed

lemma processRecords_trace:
  "remdups_adj (map fst (calls (processRecords d endpoint hideSys xs w))) =
     remdups_adj (map fst (calls w) @
       concat (map (emission (stackRef w) endpoint) (filter (selected d endpoint hideSys) xs)))"
proof (induction xs arbitrary: w)
  case Nil
  then show ?case by simp
next
  case (Cons y ys)
  let ?w = "processRecord d endpoint hideSys y w"
  let ?rest = "concat (map (emission (stackRef w) endpoint) (filter (selected d endpoint hideSys) ys))"
  have same: "emission (stackRef ?w) endpoint = emission (stackRef w) endpoint"
    by (rule ext) (rule emission_after_record)
  have "remdups_adj (map fst (calls (processRecords d endpoint hideSys (y # ys) w))) =
      remdups_adj (map fst (calls ?w) @ ?rest)"
    using Cons.IH [of ?w] by (simp add: same)
  also have "\<dots> = remdups_adj ((map fst (calls w) @
      (if selected d endpoint hideSys y then emission (stackRef w) endpoint y else [])) @ ?rest)"
    by (rule remdups_adj_append_cong) (rule processRecord_trace)
  finally show ?case by simp
qed

lemma processRecord_store:
  "stackRef (processRecord d ''stacks'' hideSys x w) =
     (if selected d ''stacks'' hideSys x then storeStackRef (stackRef w) (ID x) (Name x)
      else stackRef w)"
proof (cases "selected d ''stacks'' hideSys x")
  case False
  then show ?thesis by (simp add: processRecord_unselected)
next
  case True
  then show ?thesis
    by (simp add: processRecord_selected stacksBranch_def Let_def logged_fields called_fields
        split: option.split)
qed

lemma processRecords_store:
  "stackRef (processRecords d ''stacks'' hideSys xs w) =
     fold (\<lambda>x st. storeStackRef st (ID x) (Name x)) (filter (selected d ''stacks'' hideSys) xs)
       (stackRef w)"
  by (induction xs arbitrary: w) (simp_all add: processRecord_store)

lemma selected_hide:
  "selected d endpoint True x =
     (\<not> System x \<and> checkMetric d endpoint (if BaseType x = [] then Type x else BaseType x))"
  by (simp add: selected_def)

text \<open>
  C6. With the flag set, \<open>processMetrics\<close> does to the exporter, the store, the log
  and the trace exactly what it does, with the flag cleared, to the batch without its
  system records, taken in their original order: the system records leave no trace, the
  others are treated as usual; filtering the batch beforehand changes nothing. Running
  the classification again on the same batch with the same flag, in the world the first
  run leaves, yields the same set of observations. In absolute terms, for the run with
  the flag set: its observations are the metric calls of the records that are not system
  records and whose type \<open>checkMetric\<close> accepts, and of no other record; its trace
  lists these calls in the order of the batch, up to the immediate repetition that is the
  second call for a service; and the references stored are those of these records of a
  stacks batch, in the order of the batch, the store being left alone on any other
  endpoint.
\<close>

theorem processMetrics_hides_system_records:
  "processMetrics d data endpoint True w =
     processMetrics d (filter (\<lambda>x. \<not> System x) data) endpoint False w \<and>
   processMetrics d (filter (\<lambda>x. \<not> System x) data) endpoint True w =
     processMetrics d data endpoint True w \<and>
   observed d data endpoint hideSys (snd (processMetrics d data endpoint hideSys w)) =
     observed d data endpoint hideSys w \<and>
   observed d data endpoint True w =
     (\<Union>x \<in> {x \<in> set data. \<not> System x \<and>
                 checkMetric d endpoint (if BaseType x = [] then Type x else BaseType x)}.
        set (emission (stackRef w) endpoint x)) \<and>
   remdups_adj (map fst (calls (snd (processMetrics d data endpoint True w)))) =
     remdups_adj (map fst (calls w) @
       concat (map (emission (stackRef w) endpoint)
         (filter (\<lambda>x. \<not> System x \<and>
                    checkMetric d endpoint (if BaseType x = [] then Type x else BaseType x))
            data))) \<and>
   stackRef (snd (processMetrics d data endpoint True w)) =
     (if endpoint = ''stacks''
      then fold (\<lambda>x st. storeStackRef st (ID x) (Name x))
             (filter (\<lambda>x. \<not> System x \<and>
                        checkMetric d endpoint (if BaseType x = [] then Type x else BaseType x))
                data)
             (stackRef w)
      else stackRef w)"
proof (intro conjI)
  show "processMetrics d data endpoint True w =
     processMetrics d (filter (\<lambda>x. \<not> System x) data) endpoint False w"
    by (simp add: processMetrics_def processRecords_hide)
  show "processMetrics d (filter (\<lambda>x. \<not> System x) data) endpoint True w =
     processMetrics d data endpoint True w"
    by (simp add: processMetrics_def processRecords_hide)
  show "observed d data endpoint hideSys (snd (processMetrics d data endpoint hideSys w)) =
     observed d data endpoint hideSys w"
    by (simp add: processMetrics_def observed_emissions emission_after_records)
  show "observed d data endpoint True w =
     (\<Union>x \<in> {x \<in> set data. \<not> System x \<and>
                 checkMetric d endpoint (if BaseType x = [] then Type x else BaseType x)}.
        set (emission (stackRef w) endpoint x))"
    by (simp add: observed_emissions selected_hide)
  have sel: "selected d endpoint True = (\<lambda>x. \<not> System x \<and>
      checkMetric d endpoint (if BaseType x = [] then Type x else BaseType x))"
    by (rule ext) (rule selected_hide)
  show "remdups_adj (map fst (calls (snd (processMetrics d data endpoint True w)))) =
     remdups_adj (map fst (calls w) @
       concat (map (emission (stackRef w) endpoint)
         (filter (\<lambda>x. \<not> System x \<and>
                    checkMetric d endpoint (if BaseType x = [] then Type x else BaseType x))
            data)))"
    using processRecords_trace [of d endpoint True data w]
    by (simp only: processMetrics_def snd_conv sel)
  show "stackRef (snd (processMetrics d data endpoint True w)) =
     (if endpoint = ''stacks''
      then fold (\<lambda>x st. storeStackRef st (ID x) (Name x))
             (filter (\<lambda>x. \<not> System x \<and>
                        checkMetric d endpoint (if BaseType x = [] then Type x else BaseType x))
                data)
             (stackRef w)
      else stackRef w)"
  proof (cases "endpoint = ''stacks''")
    case True
    have "selected d ''stacks'' True = (\<lambda>x. \<not> System x \<and>
        checkMetric d ''stacks'' (if BaseType x = [] then Type x else BaseType x))"
      by (rule ext) (rule selected_hide)
    with True show ?thesis
      by (simp add: processMetrics_def processRecords_store)
  next
    case False
    then show ?thesis
      by (simp add: processMetrics_def processRecords_stackRef)
  qed
qed

theorem processMetrics_hides_system_records_witness:
  "observed exampleDeps
     [exampleRecord\<lparr>System := True\<rparr>, exampleRecord, exampleRecord\<lparr>Name := ''db''\<rparr>]
     ''services'' True emptyWorld =
     {ServiceMetrics ''web'' ''unknown'' ''active'' ''healthy'' 2,
      ServiceMetrics ''db'' ''unknown'' ''active'' ''healthy'' 2} \<and>
   remdups_adj (map fst (calls (snd (processMetrics exampleDeps
     [exampleRecord\<lparr>System := True\<rparr>, exampleRecord, exampleRecord\<lparr>Name := ''db''\<rparr>]
     ''services'' True emptyWorld)))) =
     [ServiceMetrics ''web'' ''unknown'' ''active'' ''healthy'' 2,
      ServiceMetrics ''db'' ''unknown'' ''active'' ''healthy'' 2]"
proof -
  note inst = processMetrics_hides_system_records [of exampleDeps
      "[exampleRecord\<lparr>System := True\<rparr>, exampleRecord, exampleRecord\<lparr>Name := ''db''\<rparr>]"
      "''services''" emptyWorld True]
  have "observed exampleDeps
     [exampleRecord\<lparr>System := True\<rparr>, exampleRecord, exampleRecord\<lparr>Name := ''db''\<rparr>]
     ''services'' True emptyWorld =
     {ServiceMetrics ''web'' ''unknown'' ''active'' ''healthy'' 2,
      ServiceMetrics ''db'' ''unknown'' ''active'' ''healthy'' 2}"
    using inst [THEN conjunct2, THEN conjunct2, THEN conjunct2, THEN conjunct1,
        unfolded set_filter [symmetric]]
    by (simp add: exampleDeps_def exampleRecord_def emptyWorld_def emission_def insert_commute
        del: set_filter)
  moreover have "remdups_adj (map fst (calls (snd (processMetrics exampleDeps
     [exampleRecord\<lparr>System := True\<rparr>, exampleRecord, exampleRecord\<lparr>Name := ''db''\<rparr>]
     ''services'' True emptyWorld)))) =
     [ServiceMetrics ''web'' ''unknown'' ''active'' ''healthy'' 2,
      ServiceMetrics ''db'' ''unknown'' ''active'' ''healthy'' 2]"
    using inst [THEN conjunct2, THEN conjunct2, THEN conjunct2, THEN conjunct2, THEN conjunct1]
    by (simp add: exampleDeps_def exampleRecord_def emptyWorld_def emission_def)
  ultimately show ?thesis by blast
qed

subsection \<open>Hosts\<close>

lemma processRecord_hosts_calls:
  "map fst (calls (processRecord d ''hosts'' hideSys x w)) =
     map fst (calls w) @
       (if selected d ''hosts'' hideSys x
        then [HostMetrics (if Name x \<noteq> [] then Name x else HostName x) (State x) (AgentState x)]
        else [])"
  by (cases "selected d ''hosts'' hideSys x")
    (simp_all add: processRecord_unselected processRecord_selected hostsBranch_calls logged_fields)

lemma processRecords_hosts_calls:
  "map fst (calls (processRecords d ''hosts'' hideSys xs w)) =
     map fst (calls w) @
       map (\<lambda>x. HostMetrics (if Name x \<noteq> [] then Name x else HostName x) (State x) (AgentState x))
         (filter (selected d ''hosts'' hideSys) xs)"
  by (induction xs arbitrary: w) (simp_all add: processRecord_hosts_calls)

text \<open>
  C8. On the hosts endpoint the metric calls of a run are, in order, one call per
  selected record, keyed by the record's name when it is not empty and by its host name
  otherwise.
\<close>

theorem hosts_display_name:
  "map fst (calls (snd (processMetrics d data ''hosts'' hideSys w))) =
     map fst (calls w) @
       map (\<lambda>x. HostMetrics (if Name x \<noteq> [] then Name x else HostName x) (State x) (AgentState x))
         (filter (selected d ''hosts'' hideSys) data)"
  by (simp add: processMetrics_def processRecords_hosts_calls)

subsection \<open>Services\<close>

lemma hostsBranch_logs: "\<exists>es. logs (hostsBranch d x w) = logs w @ es"
  by (simp add: hostsBranch_def Let_def logged_fields called_fields split: option.split)

lemma stacksBranch_logs: "\<exists>es. logs (stacksBranch d x w) = logs w @ es"
  by (simp add: stacksBranch_def Let_def logged_fields called_fields split: option.split)

lemma servicesBranch_logs: "\<exists>es. logs (servicesBranch d x w) = logs w @ es"
  by (simp add: servicesBranch_def Let_def logged_fields called_fields split: option.split)

lemma processRecord_logs: "\<exists>es. logs (processRecord d endpoint hideSys x w) = logs w @ es"
proof (cases "selected d endpoint hideSys x")
  case False
  then show ?thesis by (simp add: processRecord_unselected)
next
  case True
  let ?w = "logged [Log Debug [Str ''Processing metrics for %s'', Str endpoint]] w"
  have "\<exists>es. logs (processRecord d endpoint hideSys x w) = logs ?w @ es"
  proof (cases "endpoint = ''hosts''")
    case True
    with \<open>selected d endpoint hideSys x\<close> show ?thesis
      using hostsBranch_logs [of d x ?w] by (simp add: processRecord_selected)
  next
    case notHosts: False
    show ?thesis
    proof (cases "endpoint = ''stacks''")
      case True
      with \<open>selected d endpoint hideSys x\<close> notHosts show ?thesis
        using stacksBranch_logs [of d x ?w] by (simp add: processRecord_selected)
    next
      case notStacks: False
      show ?thesis
      proof (cases "endpoint = ''services''")
        case True
        with \<open>selected d endpoint hideSys x\<close> notHosts notStacks show ?thesis
          using servicesBranch_logs [of d x ?w] by (simp add: processRecord_selected)
      next
        case False
        with \<open>selected d endpoint hideSys x\<close> notHosts notStacks show ?thesis
          by (simp add: processRecord_selected)
      qed
    qed
  qed
  then show ?thesis by (auto simp: logged_fields)
qed

lemma processRecords_logs: "\<exists>es. logs (processRecords d endpoint hideSys xs w) = logs w @ es"
proof (induction xs arbitrary: w)
  case Nil
  then show ?case by simp
next
  case (Cons y ys)
  obtain es where "logs (processRecord d endpoint hideSys y w) = logs w @ es"
    using processRecord_logs by blast
  moreover obtain es' where "logs (processRecords d endpoint hideSys (y # ys) w) =
      logs (processRecord d endpoint hideSys y w) @ es'"
    using Cons.IH [of "processRecord d endpoint hideSys y w"] by auto
  ultimately show ?case by simp
qed

lemma servicesBranch_warns:
  assumes "fst (retrieveStackRef (stackRef w) (StackID x)) = ''unknown''"
  shows "Logf Warn ''Failed to obtain stack_name for %s from the API'' [Str (Name x)]
           \<in> set (logs (servicesBranch d x w))"
  using assms
  by (simp add: servicesBranch_def Let_def logged_fields called_fields split: option.split)

lemma processRecord_warns:
  assumes "selected d ''services'' hideSys x"
    and "fst (retrieveStackRef (stackRef w) (StackID x)) = ''unknown''"
  shows "Logf Warn ''Failed to obtain stack_name for %s from the API'' [Str (Name x)]
           \<in> set (logs (processRecord d ''services'' hideSys x w))"
  using servicesBranch_warns [of "logged [Log Debug [Str ''Processing metrics for %s'',
      Str ''services'']] w" x d] assms
  by (simp add: processRecord_selected logged_fields)

lemma processRecords_warns:
  assumes "x \<in> set xs" and "selected d ''services'' hideSys x"
    and "fst (retrieveStackRef (stackRef w) (StackID x)) = ''unknown''"
  shows "Logf Warn ''Failed to obtain stack_name for %s from the API'' [Str (Name x)]
           \<in> set (logs (processRecords d ''services'' hideSys xs w))"
  using assms
proof (induction xs arbitrary: w)
  case Nil
  then show ?case by simp
next
  case (Cons y ys)
  let ?w = "processRecord d ''services'' hideSys y w"
  have same: "stackRef ?w = stackRef w"
    by (simp add: processRecord_stackRef)
  show ?case
  proof (cases "x = y")
    case True
    then have "Logf Warn ''Failed to obtain stack_name for %s from the API'' [Str (Name x)]
        \<in> set (logs ?w)"
      using Cons.prems processRecord_warns by blast
    moreover obtain es where "logs (processRecords d ''services'' hideSys ys ?w) = logs ?w @ es"
      using processRecords_logs by blast
    ultimately show ?thesis by simp
  next
    case False
    with Cons.prems have "x \<in> set ys" by simp
    then show ?thesis
      using Cons.IH [of ?w] Cons.prems same by simp
  qed
qed

text \<open>
  C7. On the services endpoint the observations of a run are the calls, one per
  selected record, whose stack-name label is \<open>retrieveStackRef\<close> of the record's
  \<open>StackID\<close> in the store, which the run does not change. When that result is
  \<open>"unknown"\<close>, the warning naming the service is in the log and the record is still
  observed, with \<open>"unknown"\<close> as its label.
\<close>

theorem service_stack_name:
  "observed d data ''services'' hideSys w =
     (\<lambda>x. ServiceMetrics (Name x) (fst (retrieveStackRef (stackRef w) (StackID x))) (State x)
             (HealthState x) (Scale x)) ` {x \<in> set data. selected d ''services'' hideSys x} \<and>
   stackRef (snd (processMetrics d data ''services'' hideSys w)) = stackRef w \<and>
   (\<forall>x \<in> set data.
      selected d ''services'' hideSys x \<and>
      fst (retrieveStackRef (stackRef w) (StackID x)) = ''unknown'' \<longrightarrow>
        Logf Warn ''Failed to obtain stack_name for %s from the API'' [Str (Name x)]
          \<in> set (logs (snd (processMetrics d data ''services'' hideSys w))) \<and>
        ServiceMetrics (Name x) ''unknown'' (State x) (HealthState x) (Scale x)
          \<in> observed d data ''services'' hideSys w)"
proof (intro conjI ballI impI)
  show obs: "observed d data ''services'' hideSys w =
     (\<lambda>x. ServiceMetrics (Name x) (fst (retrieveStackRef (stackRef w) (StackID x))) (State x)
             (HealthState x) (Scale x)) ` {x \<in> set data. selected d ''services'' hideSys x}"
    by (auto simp: observed_emissions emission_def)
  show "stackRef (snd (processMetrics d data ''services'' hideSys w)) = stackRef w"
    by (simp add: processMetrics_def processRecords_stackRef)
  fix x
  assume x: "x \<in> set data"
    and sel: "selected d ''services'' hideSys x \<and>
      fst (retrieveStackRef (stackRef w) (StackID x)) = ''unknown''"
  show "Logf Warn ''Failed to obtain stack_name for %s from the API'' [Str (Name x)]
          \<in> set (logs (snd (processMetrics d data ''services'' hideSys w)))"
    using x sel by (simp add: processMetrics_def processRecords_warns)
  have "ServiceMetrics (Name x) (fst (retrieveStackRef (stackRef w) (StackID x))) (State x)
      (HealthState x) (Scale x) \<in> observed d data ''services'' hideSys w"
    unfolding obs using x sel by blast
  with sel show "ServiceMetrics (Name x) ''unknown'' (State x) (HealthState x) (Scale x)
          \<in> observed d data ''services'' hideSys w"
    by simp
qed

theorem service_stack_name_witness:
  "exampleRecord \<in> set [exampleRecord] \<and>
   selected exampleDeps ''services'' True exampleRecord \<and>
   fst (retrieveStackRef (stackRef emptyWorld) (StackID exampleRecord)) = ''unknown'' \<and>
   Logf Warn ''Failed to obtain stack_name for %s from the API'' [Str (Name exampleRecord)]
     \<in> set (logs (snd (processMetrics exampleDeps [exampleRecord] ''services'' True emptyWorld))) \<and>
   ServiceMetrics (Name exampleRecord) ''unknown'' (State exampleRecord)
       (HealthState exampleRecord) (Scale exampleRecord)
     \<in> observed exampleDeps [exampleRecord] ''services'' True emptyWorld"
proof -
  have sel: "selected exampleDeps ''services'' True exampleRecord"
    by (simp add: selected_def exampleDeps_def exampleRecord_def)
  have unk: "fst (retrieveStackRef (stackRef emptyWorld) (StackID exampleRecord)) = ''unknown''"
    by (simp add: emptyWorld_def)
  from service_stack_name [of exampleDeps "[exampleRecord]" True emptyWorld] sel unk
  show ?thesis by simp
qed

subsection \<open>Failures of the sink\<close>

lemma hostsBranch_failure:
  assumes "fst (setHostMetrics d (if Name x \<noteq> [] then Name x else HostName x) (State x)
                 (AgentState x) (exporter w)) = Some err"
  shows "hostsBranch d x w =
     w\<lparr>exporter := snd (setHostMetrics d (if Name x \<noteq> [] then Name x else HostName x)
                           (State x) (AgentState x) (exporter w)),
       logs := logs w @
         [Logf Error ''Error processing host metrics: %s'' [Err err],
          Logf Error ''Attempt Failed to set %s, %s, [agent] %s ''
            [Str (HostName x), Str (State x), Str (AgentState x)]],
       calls := calls w @
         [(HostMetrics (if Name x \<noteq> [] then Name x else HostName x) (State x) (AgentState x),
           Some err)]\<rparr>"
  using assms by (simp add: hostsBranch_def Let_def logged_def called_def)

lemma stacksBranch_failure:
  assumes "fst (setStackMetrics d (Name x) (State x) (HealthState x) (FormatBool (System x))
                 (exporter w)) = Some err"
  shows "stacksBranch d x w =
     w\<lparr>exporter := snd (setStackMetrics d (Name x) (State x) (HealthState x)
                           (FormatBool (System x)) (exporter w)),
       stackRef := storeStackRef (stackRef w) (ID x) (Name x),
       logs := logs w @
         [Logf Error ''Error processing stack metrics: %s'' [Err err],
          Logf Error ''Attempt Failed to set %s, %s, %s, %t''
            [Str (Name x), Str (State x), Str (HealthState x), Flag (System x)]],
       calls := calls w @
         [(StackMetrics (Name x) (State x) (HealthState x) (FormatBool (System x)), Some err)]\<rparr>"
  using assms by (simp add: stacksBranch_def Let_def logged_def called_def)

lemma servicesBranch_failure:
  assumes "fst (setServiceMetrics d (Name x) (fst (retrieveStackRef (stackRef w) (StackID x)))
                 (State x) (HealthState x) (Scale x) (exporter w)) = Some err"
  shows "servicesBranch d x w =
     w\<lparr>exporter := snd (setServiceMetrics d (Name x)
                           (fst (retrieveStackRef (stackRef w) (StackID x)))
                           (State x) (HealthState x) (Scale x) (exporter w)),
       logs := logs w @ snd (retrieveStackRef (stackRef w) (StackID x)) @
         (if fst (retrieveStackRef (stackRef w) (StackID x)) = ''unknown''
          then [Logf Warn ''Failed to obtain stack_name for %s from the API'' [Str (Name x)]]
          else []) @
         [Logf Error ''Error processing service metrics: %s'' [Err err],
          Logf Error ''Attempt Failed to set %s, %s, %s, %s, %d''
            [Str (Name x), Str (fst (retrieveStackRef (stackRef w) (StackID x))), Str (State x),
             Str (HealthState x), Num (Scale x)]],
       calls := calls w @
         [(ServiceMetrics (Name x) (fst (retrieveStackRef (stackRef w) (StackID x))) (State x)
             (HealthState x) (Scale x), Some err)]\<rparr>"
  using assms
  by (cases "fst (retrieveStackRef (stackRef w) (StackID x)) = ''unknown''")
    (simp_all add: servicesBranch_def Let_def logged_def called_def)

lemma servicesBranch_success:
  assumes "fst (setServiceMetrics d (Name x) (fst (retrieveStackRef (stackRef w) (StackID x)))
                 (State x) (HealthState x) (Scale x) (exporter w)) = None"
  shows "calls (servicesBranch d x w) = calls w @
       [(ServiceMetrics (Name x) (fst (retrieveStackRef (stackRef w) (StackID x))) (State x)
           (HealthState x) (Scale x), None),
        (ServiceMetrics (Name x) (fst (retrieveStackRef (stackRef w) (StackID x))) (State x)
           (HealthState x) (Scale x),
         fst (setServiceMetrics d (Name x) (fst (retrieveStackRef (stackRef w) (StackID x)))
                (State x) (HealthState x) (Scale x)
                (snd (setServiceMetrics d (Name x)
                        (fst (retrieveStackRef (stackRef w) (StackID x)))
                        (State x) (HealthState x) (Scale x) (exporter w)))))] \<and>
     exporter (servicesBranch d x w) =
       snd (setServiceMetrics d (Name x) (fst (retrieveStackRef (stackRef w) (StackID x)))
              (State x) (HealthState x) (Scale x)
              (snd (setServiceMetrics d (Name x)
                      (fst (retrieveStackRef (stackRef w) (StackID x)))
                      (State x) (HealthState x) (Scale x) (exporter w))))"
  using assms
  by (cases "fst (retrieveStackRef (stackRef w) (StackID x)) = ''unknown''")
    (simp_all add: servicesBranch_def Let_def logged_def called_def)

lemma processRecords_insert:
  "processRecords d endpoint hideSys (xs @ x # ys) w =
     processRecords d endpoint hideSys ys
       (processRecord d endpoint hideSys x (processRecords d endpoint hideSys xs w))"
  by (simp add: processRecords_append)

text \<open>
  C9. \<open>processMetrics\<close> returns \<^verbatim>\<open>nil\<close> on every batch. Whatever happens
  at a record \<open>x\<close>, the records after it are processed from the world that \<open>x\<close>
  leaves. When the metric call for a selected record returns an error, that record
  leaves the world changed by this one call, with the two error entries in the log (the
  error, then the fields of the record and the values attempted), and nothing else;
  for a stack the reference was stored before the call.
\<close>

theorem per_record_failure_isolation:
  "fst (processMetrics d data endpoint hideSys w) = None \<and>
   processMetrics d (xs @ x # ys) endpoint hideSys w =
     processMetrics d ys endpoint hideSys
       (snd (processMetrics d [x] endpoint hideSys
               (snd (processMetrics d xs endpoint hideSys w)))) \<and>
   (selected d ''hosts'' hideSys x \<and>
    fst (setHostMetrics d (if Name x \<noteq> [] then Name x else HostName x) (State x)
           (AgentState x) (exporter w)) = Some err \<longrightarrow>
      snd (processMetrics d [x] ''hosts'' hideSys w) =
        w\<lparr>exporter := snd (setHostMetrics d (if Name x \<noteq> [] then Name x else HostName x)
                              (State x) (AgentState x) (exporter w)),
          logs := logs w @
            [Log Debug [Str ''Processing metrics for %s'', Str ''hosts''],
             Logf Error ''Error processing host metrics: %s'' [Err err],
             Logf Error ''Attempt Failed to set %s, %s, [agent] %s ''
               [Str (HostName x), Str (State x), Str (AgentState x)]],
          calls := calls w @
            [(HostMetrics (if Name x \<noteq> [] then Name x else HostName x) (State x)
                (AgentState x), Some err)]\<rparr>) \<and>
   (selected d ''stacks'' hideSys x \<and>
    fst (setStackMetrics d (Name x) (State x) (HealthState x) (FormatBool (System x))
           (exporter w)) = Some err \<longrightarrow>
      snd (processMetrics d [x] ''stacks'' hideSys w) =
        w\<lparr>exporter := snd (setStackMetrics d (Name x) (State x) (HealthState x)
                              (FormatBool (System x)) (exporter w)),
          stackRef := storeStackRef (stackRef w) (ID x) (Name x),
          logs := logs w @
            [Log Debug [Str ''Processing metrics for %s'', Str ''stacks''],
             Logf Error ''Error processing stack metrics: %s'' [Err err],
             Logf Error ''Attempt Failed to set %s, %s, %s, %t''
               [Str (Name x), Str (State x), Str (HealthState x), Flag (System x)]],
          calls := calls w @
            [(StackMetrics (Name x) (State x) (HealthState x) (FormatBool (System x)),
              Some err)]\<rparr>) \<and>
   (selected d ''services'' hideSys x \<and>
    fst (setServiceMetrics d (Name x) (fst (retrieveStackRef (stackRef w) (StackID x)))
           (State x) (HealthState x) (Scale x) (exporter w)) = Some err \<longrightarrow>
      snd (processMetrics d [x] ''services'' hideSys w) =
        w\<lparr>exporter := snd (setServiceMetrics d (Name x)
                              (fst (retrieveStackRef (stackRef w) (StackID x)))
                              (State x) (HealthState x) (Scale x) (exporter w)),
          logs := logs w @
            [Log Debug [Str ''Processing metrics for %s'', Str ''services'']] @
            snd (retrieveStackRef (stackRef w) (StackID x)) @
            (if fst (retrieveStackRef (stackRef w) (StackID x)) = ''unknown''
             then [Logf Warn ''Failed to obtain stack_name for %s from the API'' [Str (Name x)]]
             else []) @
            [Logf Error ''Error processing service metrics: %s'' [Err err],
             Logf Error ''Attempt Failed to set %s, %s, %s, %s, %d''
               [Str (Name x), Str (fst (retrieveStackRef (stackRef w) (StackID x))),
                Str (State x), Str (HealthState x), Num (Scale x)]],
          calls := calls w @
            [(ServiceMetrics (Name x) (fst (retrieveStackRef (stackRef w) (StackID x)))
                (State x) (HealthState x) (Scale x), Some err)]\<rparr>)"
proof (intro conjI impI)
  show "fst (processMetrics d data endpoint hideSys w) = None"
    by (simp add: processMetrics_def)
  show "processMetrics d (xs @ x # ys) endpoint hideSys w =
     processMetrics d ys endpoint hideSys
       (snd (processMetrics d [x] endpoint hideSys
               (snd (processMetrics d xs endpoint hideSys w))))"
    by (simp add: processMetrics_def processRecords_insert)
next
  let ?w = "logged [Log Debug [Str ''Processing metrics for %s'', Str ''hosts'']] w"
  assume "selected d ''hosts'' hideSys x \<and>
    fst (setHostMetrics d (if Name x \<noteq> [] then Name x else HostName x) (State x)
           (AgentState x) (exporter w)) = Some err"
  then have sel: "selected d ''hosts'' hideSys x"
    and "fst (setHostMetrics d (if Name x \<noteq> [] then Name x else HostName x) (State x)
           (AgentState x) (exporter ?w)) = Some err"
    by (simp_all add: logged_fields)
  from hostsBranch_failure [OF this(2)] sel
  show "snd (processMetrics d [x] ''hosts'' hideSys w) =
        w\<lparr>exporter := snd (setHostMetrics d (if Name x \<noteq> [] then Name x else HostName x)
                              (State x) (AgentState x) (exporter w)),
          logs := logs w @
            [Log Debug [Str ''Processing metrics for %s'', Str ''hosts''],
             Logf Error ''Error processing host metrics: %s'' [Err err],
             Logf Error ''Attempt Failed to set %s, %s, [agent] %s ''
               [Str (HostName x), Str (State x), Str (AgentState x)]],
          calls := calls w @
            [(HostMetrics (if Name x \<noteq> [] then Name x else HostName x) (State x)
                (AgentState x), Some err)]\<rparr>"
    by (simp add: processMetrics_def processRecord_selected logged_def)
next
  let ?w = "logged [Log Debug [Str ''Processing metrics for %s'', Str ''stacks'']] w"
  assume "selected d ''stacks'' hideSys x \<and>
    fst (setStackMetrics d (Name x) (State x) (HealthState x) (FormatBool (System x))
           (exporter w)) = Some err"
  then have sel: "selected d ''stacks'' hideSys x"
    and "fst (setStackMetrics d (Name x) (State x) (HealthState x) (FormatBool (System x))
           (exporter ?w)) = Some err"
    by (simp_all add: logged_fields)
  from stacksBranch_failure [OF this(2)] sel
  show "snd (processMetrics d [x] ''stacks'' hideSys w) =
        w\<lparr>exporter := snd (setStackMetrics d (Name x) (State x) (HealthState x)
                              (FormatBool (System x)) (exporter w)),
          stackRef := storeStackRef (stackRef w) (ID x) (Name x),
          logs := logs w @
            [Log Debug [Str ''Processing metrics for %s'', Str ''stacks''],
             Logf Error ''Error processing stack metrics: %s'' [Err err],
             Logf Error ''Attempt Failed to set %s, %s, %s, %t''
               [Str (Name x), Str (State x), Str (HealthState x), Flag (System x)]],
          calls := calls w @
            [(StackMetrics (Name x) (State x) (HealthState x) (FormatBool (System x)),
              Some err)]\<rparr>"
    by (simp add: processMetrics_def processRecord_selected logged_def)
next
  let ?w = "logged [Log Debug [Str ''Processing metrics for %s'', Str ''services'']] w"
  assume "selected d ''services'' hideSys x \<and>
    fst (setServiceMetrics d (Name x) (fst (retrieveStackRef (stackRef w) (StackID x)))
           (State x) (HealthState x) (Scale x) (exporter w)) = Some err"
  then have sel: "selected d ''services'' hideSys x"
    and "fst (setServiceMetrics d (Name x) (fst (retrieveStackRef (stackRef ?w) (StackID x)))
           (State x) (HealthState x) (Scale x) (exporter ?w)) = Some err"
    by (simp_all add: logged_fields)
  from servicesBranch_failure [OF this(2)] sel
  show "snd (processMetrics d [x] ''services'' hideSys w) =
        w\<lparr>exporter := snd (setServiceMetrics d (Name x)
                              (fst (retrieveStackRef (stackRef w) (StackID x)))
                              (State x) (HealthState x) (Scale x) (exporter w)),
          logs := logs w @
            [Log Debug [Str ''Processing metrics for %s'', Str ''services'']] @
            snd (retrieveStackRef (stackRef w) (StackID x)) @
            (if fst (retrieveStackRef (stackRef w) (StackID x)) = ''unknown''
             then [Logf Warn ''Failed to obtain stack_name for %s from the API'' [Str (Name x)]]
             else []) @
            [Logf Error ''Error processing service metrics: %s'' [Err err],
             Logf Error ''Attempt Failed to set %s, %s, %s, %s, %d''
               [Str (Name x), Str (fst (retrieveStackRef (stackRef w) (StackID x))),
                Str (State x), Str (HealthState x), Num (Scale x)]],
          calls := calls w @
            [(ServiceMetrics (Name x) (fst (retrieveStackRef (stackRef w) (StackID x)))
                (State x) (HealthState x) (Scale x), Some err)]\<rparr>"
    by (simp add: processMetrics_def processRecord_selected logged_def)
qed

theorem per_record_failure_isolation_witness:
  "selected exampleDeps ''hosts'' True (exampleRecord\<lparr>Name := ''bad'', Type := ''host''\<rparr>) \<and>
   fst (setHostMetrics exampleDeps ''bad'' ''active'' [] 0) = Some ''rejected'' \<and>
   snd (processMetrics exampleDeps [exampleRecord\<lparr>Name := ''bad'', Type := ''host''\<rparr>]
          ''hosts'' True emptyWorld) =
     \<lparr>exporter = 1, stackRef = [],
      logs = [Log Debug [Str ''Processing metrics for %s'', Str ''hosts''],
              Logf Error ''Error processing host metrics: %s'' [Err ''rejected''],
              Logf Error ''Attempt Failed to set %s, %s, [agent] %s ''
                [Str ''h1'', Str ''active'', Str []]],
      calls = [(HostMetrics ''bad'' ''active'' [], Some ''rejected'')]\<rparr> \<and>
   selected exampleDeps ''stacks'' True (exampleRecord\<lparr>Name := ''bad'', Type := ''stack''\<rparr>) \<and>
   fst (setStackMetrics exampleDeps ''bad'' ''active'' ''healthy'' ''false'' 0) = Some ''rejected'' \<and>
   snd (processMetrics exampleDeps [exampleRecord\<lparr>Name := ''bad'', Type := ''stack''\<rparr>]
          ''stacks'' True emptyWorld) =
     \<lparr>exporter = 1, stackRef = [(''1s1'', ''bad'')],
      logs = [Log Debug [Str ''Processing metrics for %s'', Str ''stacks''],
              Logf Error ''Error processing stack metrics: %s'' [Err ''rejected''],
              Logf Error ''Attempt Failed to set %s, %s, %s, %t''
                [Str ''bad'', Str ''active'', Str ''healthy'', Flag False]],
      calls = [(StackMetrics ''bad'' ''active'' ''healthy'' ''false'', Some ''rejected'')]\<rparr> \<and>
   selected exampleDeps ''services'' True (exampleRecord\<lparr>Name := ''bad''\<rparr>) \<and>
   fst (setServiceMetrics exampleDeps ''bad'' ''unknown'' ''active'' ''healthy'' 2 0) =
     Some ''rejected'' \<and>
   snd (processMetrics exampleDeps [exampleRecord\<lparr>Name := ''bad''\<rparr>]
          ''services'' True emptyWorld) =
     \<lparr>exporter = 1, stackRef = [],
      logs = [Log Debug [Str ''Processing metrics for %s'', Str ''services''],
              Logf Warn ''Failed to obtain stack_name for %s from the API'' [Str ''bad''],
              Logf Error ''Error processing service metrics: %s'' [Err ''rejected''],
              Logf Error ''Attempt Failed to set %s, %s, %s, %s, %d''
                [Str ''bad'', Str ''unknown'', Str ''active'', Str ''healthy'', Num 2]],
      calls = [(ServiceMetrics ''bad'' ''unknown'' ''active'' ''healthy'' 2, Some ''rejected'')]\<rparr> \<and>
   processMetrics exampleDeps
       [exampleRecord\<lparr>Name := ''bad''\<rparr>, exampleRecord] ''services'' True emptyWorld =
     processMetrics exampleDeps [exampleRecord] ''services'' True
       (snd (processMetrics exampleDeps [exampleRecord\<lparr>Name := ''bad''\<rparr>]
               ''services'' True emptyWorld))"
proof -
  have sel:
    "selected exampleDeps ''hosts'' True (exampleRecord\<lparr>Name := ''bad'', Type := ''host''\<rparr>)"
    "selected exampleDeps ''stacks'' True (exampleRecord\<lparr>Name := ''bad'', Type := ''stack''\<rparr>)"
    "selected exampleDeps ''services'' True (exampleRecord\<lparr>Name := ''bad''\<rparr>)"
    by (simp_all add: selected_def exampleDeps_def exampleRecord_def)
  have rej:
    "fst (setHostMetrics exampleDeps ''bad'' ''active'' [] 0) = Some ''rejected''"
    "fst (setStackMetrics exampleDeps ''bad'' ''active'' ''healthy'' ''false'' 0) = Some ''rejected''"
    "fst (setServiceMetrics exampleDeps ''bad'' ''unknown'' ''active'' ''healthy'' 2 0) =
       Some ''rejected''"
    by (simp_all add: exampleDeps_def)
  note inst = per_record_failure_isolation [where d = exampleDeps and hideSys = True
      and w = emptyWorld and err = "''rejected''" and xs = "[]" and ys = "[exampleRecord]"
      and endpoint = "''services''" and data = "[]"]
  have hosts: "snd (processMetrics exampleDeps [exampleRecord\<lparr>Name := ''bad'', Type := ''host''\<rparr>]
          ''hosts'' True emptyWorld) =
     \<lparr>exporter = 1, stackRef = [],
      logs = [Log Debug [Str ''Processing metrics for %s'', Str ''hosts''],
              Logf Error ''Error processing host metrics: %s'' [Err ''rejected''],
              Logf Error ''Attempt Failed to set %s, %s, [agent] %s ''
                [Str ''h1'', Str ''active'', Str []]],
      calls = [(HostMetrics ''bad'' ''active'' [], Some ''rejected'')]\<rparr>"
    using inst [where x = "exampleRecord\<lparr>Name := ''bad'', Type := ''host''\<rparr>"] sel(1)
    by (simp add: exampleDeps_def exampleRecord_def emptyWorld_def)
  have stacks: "snd (processMetrics exampleDeps [exampleRecord\<lparr>Name := ''bad'', Type := ''stack''\<rparr>]
          ''stacks'' True emptyWorld) =
     \<lparr>exporter = 1, stackRef = [(''1s1'', ''bad'')],
      logs = [Log Debug [Str ''Processing metrics for %s'', Str ''stacks''],
              Logf Error ''Error processing stack metrics: %s'' [Err ''rejected''],
              Logf Error ''Attempt Failed to set %s, %s, %s, %t''
                [Str ''bad'', Str ''active'', Str ''healthy'', Flag False]],
      calls = [(StackMetrics ''bad'' ''active'' ''healthy'' ''false'', Some ''rejected'')]\<rparr>"
    using inst [where x = "exampleRecord\<lparr>Name := ''bad'', Type := ''stack''\<rparr>"] sel(2)
    by (simp add: exampleDeps_def exampleRecord_def emptyWorld_def FormatBool_def)
  have services: "snd (processMetrics exampleDeps [exampleRecord\<lparr>Name := ''bad''\<rparr>]
          ''services'' True emptyWorld) =
     \<lparr>exporter = 1, stackRef = [],
      logs = [Log Debug [Str ''Processing metrics for %s'', Str ''services''],
              Logf Warn ''Failed to obtain stack_name for %s from the API'' [Str ''bad''],
              Logf Error ''Error processing service metrics: %s'' [Err ''rejected''],
              Logf Error ''Attempt Failed to set %s, %s, %s, %s, %d''
                [Str ''bad'', Str ''unknown'', Str ''active'', Str ''healthy'', Num 2]],
      calls = [(ServiceMetrics ''bad'' ''unknown'' ''active'' ''healthy'' 2, Some ''rejected'')]\<rparr>"
    using inst [where x = "exampleRecord\<lparr>Name := ''bad''\<rparr>"] sel(3)
    by (simp add: exampleDeps_def exampleRecord_def emptyWorld_def)
  have continues: "processMetrics exampleDeps
       [exampleRecord\<lparr>Name := ''bad''\<rparr>, exampleRecord] ''services'' True emptyWorld =
     processMetrics exampleDeps [exampleRecord] ''services'' True
       (snd (processMetrics exampleDeps [exampleRecord\<lparr>Name := ''bad''\<rparr>]
               ''services'' True emptyWorld))"
    using inst [where x = "exampleRecord\<lparr>Name := ''bad''\<rparr>"]
    by (simp add: processMetrics_def)
  from sel rej hosts stacks services continues show ?thesis by blast
qed

subsection \<open>The second call for a service\<close>

text \<open>
  C10. For a selected service record, at any position of the batch, whose call to
  \<open>setServiceMetrics\<close> returns no error, the run calls \<open>setServiceMetrics\<close> a
  second time with the same arguments, on the exporter the first call leaves; the
  result of the second call is not inspected.
\<close>

theorem service_emitted_twice:
  "(let w1 = snd (processMetrics d xs ''services'' hideSys w);
        stackName = fst (retrieveStackRef (stackRef w1) (StackID x));
        first = setServiceMetrics d (Name x) stackName (State x) (HealthState x) (Scale x)
                  (exporter w1);
        second = setServiceMetrics d (Name x) stackName (State x) (HealthState x) (Scale x)
                   (snd first);
        w2 = snd (processMetrics d (xs @ [x]) ''services'' hideSys w)
    in selected d ''services'' hideSys x \<and> fst first = None \<longrightarrow>
         calls w2 = calls w1 @
           [(ServiceMetrics (Name x) stackName (State x) (HealthState x) (Scale x), None),
            (ServiceMetrics (Name x) stackName (State x) (HealthState x) (Scale x), fst second)] \<and>
         exporter w2 = snd second)"
proof -
  let ?w1 = "processRecords d ''services'' hideSys xs w"
  let ?w = "logged [Log Debug [Str ''Processing metrics for %s'', Str ''services'']] ?w1"
  have fields: "stackRef ?w = stackRef ?w1" "exporter ?w = exporter ?w1" "calls ?w = calls ?w1"
    by (simp_all add: logged_fields)
  have step: "processRecords d ''services'' hideSys (xs @ [x]) w =
      processRecord d ''services'' hideSys x ?w1"
    by (simp add: processRecords_append)
  show ?thesis
    unfolding Let_def processMetrics_def snd_conv step
  proof (intro impI)
    assume hyp: "selected d ''services'' hideSys x \<and>
      fst (setServiceMetrics d (Name x) (fst (retrieveStackRef (stackRef ?w1) (StackID x)))
             (State x) (HealthState x) (Scale x) (exporter ?w1)) = None"
    then have branch: "processRecord d ''services'' hideSys x ?w1 = servicesBranch d x ?w"
      by (simp add: processRecord_selected)
    from hyp have "fst (setServiceMetrics d (Name x)
        (fst (retrieveStackRef (stackRef ?w) (StackID x)))
        (State x) (HealthState x) (Scale x) (exporter ?w)) = None"
      by (simp only: fields)
    from servicesBranch_success [OF this]
    show "calls (processRecord d ''services'' hideSys x ?w1) = calls ?w1 @
        [(ServiceMetrics (Name x) (fst (retrieveStackRef (stackRef ?w1) (StackID x))) (State x)
            (HealthState x) (Scale x), None),
         (ServiceMetrics (Name x) (fst (retrieveStackRef (stackRef ?w1) (StackID x))) (State x)
            (HealthState x) (Scale x),
          fst (setServiceMetrics d (Name x)
                 (fst (retrieveStackRef (stackRef ?w1) (StackID x)))
                 (State x) (HealthState x) (Scale x)
                 (snd (setServiceMetrics d (Name x)
                         (fst (retrieveStackRef (stackRef ?w1) (StackID x)))
                         (State x) (HealthState x) (Scale x) (exporter ?w1)))))] \<and>
      exporter (processRecord d ''services'' hideSys x ?w1) =
        snd (setServiceMetrics d (Name x)
               (fst (retrieveStackRef (stackRef ?w1) (StackID x)))
               (State x) (HealthState x) (Scale x)
               (snd (setServiceMetrics d (Name x)
                       (fst (retrieveStackRef (stackRef ?w1) (StackID x)))
                       (State x) (HealthState x) (Scale x) (exporter ?w1))))"
      unfolding branch by (simp only: fields)
  qed
qed

theorem service_emitted_twice_witness:
  "selected exampleDeps ''services'' True exampleRecord \<and>
   fst (setServiceMetrics exampleDeps ''web'' ''unknown'' ''active'' ''healthy'' 2 0) = None \<and>
   calls (snd (processMetrics exampleDeps [exampleRecord] ''services'' True emptyWorld)) =
     [(ServiceMetrics ''web'' ''unknown'' ''active'' ''healthy'' 2, None),
      (ServiceMetrics ''web'' ''unknown'' ''active'' ''healthy'' 2, None)] \<and>
   exporter (snd (processMetrics exampleDeps [exampleRecord] ''services'' True emptyWorld)) = 2"
proof -
  have sel: "selected exampleDeps ''services'' True exampleRecord"
    by (simp add: selected_def exampleDeps_def exampleRecord_def)
  have ok: "fst (setServiceMetrics exampleDeps ''web'' ''unknown'' ''active'' ''healthy'' 2 0) = None"
    by (simp add: exampleDeps_def)
  have start: "snd (processMetrics exampleDeps [] ''services'' True emptyWorld) = emptyWorld"
    by (simp add: processMetrics_def)
  from service_emitted_twice [of exampleDeps "[]" True emptyWorld exampleRecord] sel
  have "calls (snd (processMetrics exampleDeps [exampleRecord] ''services'' True emptyWorld)) =
     [(ServiceMetrics ''web'' ''unknown'' ''active'' ''healthy'' 2, None),
      (ServiceMetrics ''web'' ''unknown'' ''active'' ''healthy'' 2, None)] \<and>
   exporter (snd (processMetrics exampleDeps [exampleRecord] ''services'' True emptyWorld)) = 2"
    unfolding Let_def start append_Nil
    by (simp add: exampleDeps_def exampleRecord_def emptyWorld_def)
  with sel ok show ?thesis by blast
qed

subsection \<open>The type of a record\<close>

lemma branches_ignore_types:
  "hostsBranch d (x\<lparr>Type := t\<rparr>) w = hostsBranch d x w"
  "stacksBranch d (x\<lparr>Type := t\<rparr>) w = stacksBranch d x w"
  "servicesBranch d (x\<lparr>Type := t\<rparr>) w = servicesBranch d x w"
  "hostsBranch d (x\<lparr>BaseType := t\<rparr>) w = hostsBranch d x w"
  "stacksBranch d (x\<lparr>BaseType := t\<rparr>) w = stacksBranch d x w"
  "servicesBranch d (x\<lparr>BaseType := t\<rparr>) w = servicesBranch d x w"
  by (simp_all add: hostsBranch_def stacksBranch_def servicesBranch_def Let_def
      split: option.split)

lemma processRecord_same_selection:
  assumes "selected d endpoint hideSys x' = selected d endpoint hideSys x"
    and "hostsBranch d x' = hostsBranch d x" and "stacksBranch d x' = stacksBranch d x"
    and "servicesBranch d x' = servicesBranch d x"
  shows "processRecord d endpoint hideSys x' w = processRecord d endpoint hideSys x w"
proof (cases "selected d endpoint hideSys x")
  case True
  with assms(1) have "selected d endpoint hideSys x'" by simp
  with True assms(2-4) show ?thesis by (simp add: processRecord_selected)
next
  case False
  with assms(1) have "\<not> selected d endpoint hideSys x'" by simp
  with False show ?thesis by (simp add: processRecord_unselected)
qed

lemma processRecord_primary:
  assumes "BaseType x \<noteq> []"
  shows "processRecord d endpoint hideSys (x\<lparr>Type := t\<rparr>) w = processRecord d endpoint hideSys x w"
proof (rule processRecord_same_selection)
  show "selected d endpoint hideSys (x\<lparr>Type := t\<rparr>) = selected d endpoint hideSys x"
    using assms by (simp add: selected_def)
qed (simp_all add: branches_ignore_types fun_eq_iff)

lemma processRecord_fallback:
  assumes "BaseType x = []"
  shows "processRecord d endpoint hideSys (x\<lparr>BaseType := Type x\<rparr>) w =
    processRecord d endpoint hideSys x w"
proof (rule processRecord_same_selection)
  show "selected d endpoint hideSys (x\<lparr>BaseType := Type x\<rparr>) = selected d endpoint hideSys x"
    using assms by (simp add: selected_def)
qed (simp_all add: branches_ignore_types fun_eq_iff)

lemma processRecord_mismatch:
  assumes "\<not> checkMetric d endpoint (if BaseType x \<noteq> [] then BaseType x else Type x)"
  shows "processRecord d endpoint hideSys x w = w"
proof (rule processRecord_unselected)
  show "\<not> selected d endpoint hideSys x"
    using assms by (auto simp: selected_def)
qed

text \<open>
  C5. The type checked for a record is \<open>BaseType\<close> whenever that is not empty, so
  that \<open>Type\<close> has then no influence on the run; when \<open>BaseType\<close> is empty, the
  record is treated as if its \<open>BaseType\<close> were its \<open>Type\<close>. A record whose
  resolved type \<open>checkMetric\<close> rejects is skipped: the run is the run of the batch
  without it. In absolute terms: the observations of a run are the metric calls of the
  records that the flag does not hide and whose resolved type \<open>checkMetric\<close>
  accepts, and of no other record, and the trace lists them in the order of the batch, up
  to the immediate repetition that is the second call for a service. With the predicate
  of the spec, for which the empty category matches no endpoint, a record with both
  attributes empty is skipped on every endpoint.
\<close>

theorem category_fallback:
  "(BaseType x \<noteq> [] \<longrightarrow>
      processMetrics d (xs @ x\<lparr>Type := t\<rparr> # ys) endpoint hideSys w =
      processMetrics d (xs @ x # ys) endpoint hideSys w) \<and>
   (BaseType x = [] \<longrightarrow>
      processMetrics d (xs @ x\<lparr>BaseType := Type x\<rparr> # ys) endpoint hideSys w =
      processMetrics d (xs @ x # ys) endpoint hideSys w) \<and>
   (\<not> checkMetric d endpoint (if BaseType x \<noteq> [] then BaseType x else Type x) \<longrightarrow>
      processMetrics d (xs @ x # ys) endpoint hideSys w =
      processMetrics d (xs @ ys) endpoint hideSys w) \<and>
   observed d data endpoint hideSys w =
     (\<Union>x \<in> {x \<in> set data. \<not> (hideSys \<and> System x) \<and>
                 checkMetric d endpoint (if BaseType x \<noteq> [] then BaseType x else Type x)}.
        set (emission (stackRef w) endpoint x)) \<and>
   remdups_adj (map fst (calls (snd (processMetrics d data endpoint hideSys w)))) =
     remdups_adj (map fst (calls w) @
       concat (map (emission (stackRef w) endpoint)
         (filter (\<lambda>x. \<not> (hideSys \<and> System x) \<and>
                    checkMetric d endpoint (if BaseType x \<noteq> [] then BaseType x else Type x))
            data))) \<and>
   (BaseType x = [] \<and> Type x = [] \<longrightarrow>
      processMetrics (d\<lparr>checkMetric := checkMetricSpec expected\<rparr>) (xs @ x # ys) endpoint
        hideSys w =
      processMetrics (d\<lparr>checkMetric := checkMetricSpec expected\<rparr>) (xs @ ys) endpoint
        hideSys w)"
proof (intro conjI impI)
  assume "BaseType x \<noteq> []"
  then show "processMetrics d (xs @ x\<lparr>Type := t\<rparr> # ys) endpoint hideSys w =
      processMetrics d (xs @ x # ys) endpoint hideSys w"
    by (simp add: processMetrics_def processRecords_insert processRecord_primary)
next
  assume "BaseType x = []"
  then show "processMetrics d (xs @ x\<lparr>BaseType := Type x\<rparr> # ys) endpoint hideSys w =
      processMetrics d (xs @ x # ys) endpoint hideSys w"
    by (simp add: processMetrics_def processRecords_insert processRecord_fallback)
next
  assume "\<not> checkMetric d endpoint (if BaseType x \<noteq> [] then BaseType x else Type x)"
  then show "processMetrics d (xs @ x # ys) endpoint hideSys w =
      processMetrics d (xs @ ys) endpoint hideSys w"
    by (simp add: processMetrics_def processRecords_append processRecord_mismatch)
next
  have sel: "selected d endpoint hideSys = (\<lambda>x. \<not> (hideSys \<and> System x) \<and>
      checkMetric d endpoint (if BaseType x \<noteq> [] then BaseType x else Type x))"
    by (rule ext) (simp add: selected_def)
  show "observed d data endpoint hideSys w =
     (\<Union>x \<in> {x \<in> set data. \<not> (hideSys \<and> System x) \<and>
                 checkMetric d endpoint (if BaseType x \<noteq> [] then BaseType x else Type x)}.
        set (emission (stackRef w) endpoint x))"
    unfolding observed_emissions sel ..
  show "remdups_adj (map fst (calls (snd (processMetrics d data endpoint hideSys w)))) =
     remdups_adj (map fst (calls w) @
       concat (map (emission (stackRef w) endpoint)
         (filter (\<lambda>x. \<not> (hideSys \<and> System x) \<and>
                    checkMetric d endpoint (if BaseType x \<noteq> [] then BaseType x else Type x))
            data)))"
    using processRecords_trace [of d endpoint hideSys data w]
    by (simp only: processMetrics_def snd_conv sel)
next
  let ?d = "d\<lparr>checkMetric := checkMetricSpec expected\<rparr>"
  assume "BaseType x = [] \<and> Type x = []"
  then have "\<not> checkMetric ?d endpoint (if BaseType x \<noteq> [] then BaseType x else Type x)"
    by (simp add: checkMetricSpec_def)
  then show "processMetrics ?d (xs @ x # ys) endpoint hideSys w =
      processMetrics ?d (xs @ ys) endpoint hideSys w"
    by (simp add: processMetrics_def processRecords_append processRecord_mismatch)
qed

theorem category_fallback_witness:
  "BaseType (exampleRecord\<lparr>BaseType := ''service''\<rparr>) \<noteq> [] \<and>
   processMetrics exampleDeps [exampleRecord\<lparr>BaseType := ''service'', Type := ''host''\<rparr>]
       ''services'' True emptyWorld =
     processMetrics exampleDeps [exampleRecord\<lparr>BaseType := ''service''\<rparr>]
       ''services'' True emptyWorld \<and>
   BaseType exampleRecord = [] \<and>
   processMetrics exampleDeps [exampleRecord\<lparr>BaseType := Type exampleRecord\<rparr>]
       ''services'' True emptyWorld =
     processMetrics exampleDeps [exampleRecord] ''services'' True emptyWorld \<and>
   \<not> checkMetric exampleDeps ''hosts'' (Type exampleRecord) \<and>
   processMetrics exampleDeps [exampleRecord] ''hosts'' True emptyWorld =
     processMetrics exampleDeps [] ''hosts'' True emptyWorld \<and>
   observed exampleDeps [exampleRecord, exampleRecord\<lparr>Type := ''host''\<rparr>,
       exampleRecord\<lparr>BaseType := ''service'', Type := ''host'', Name := ''db''\<rparr>]
       ''services'' True emptyWorld =
     {ServiceMetrics ''web'' ''unknown'' ''active'' ''healthy'' 2,
      ServiceMetrics ''db'' ''unknown'' ''active'' ''healthy'' 2} \<and>
   BaseType (exampleRecord\<lparr>Type := []\<rparr>) = [] \<and> Type (exampleRecord\<lparr>Type := []\<rparr>) = [] \<and>
   processMetrics (exampleDeps\<lparr>checkMetric := checkMetricSpec (\<lambda>endpoint category. True)\<rparr>)
       [exampleRecord\<lparr>Type := []\<rparr>] ''services'' True emptyWorld =
     (None, emptyWorld)"
proof -
  have facts:
    "BaseType (exampleRecord\<lparr>BaseType := ''service''\<rparr>) \<noteq> []"
    "BaseType exampleRecord = []"
    "\<not> checkMetric exampleDeps ''hosts'' (Type exampleRecord)"
    "BaseType (exampleRecord\<lparr>Type := []\<rparr>) = []" "Type (exampleRecord\<lparr>Type := []\<rparr>) = []"
    by (simp_all add: exampleDeps_def exampleRecord_def)
  note inst = category_fallback [where d = exampleDeps and xs = "[]" and ys = "[]"
      and hideSys = True and w = emptyWorld]
  have primary: "processMetrics exampleDeps
       [exampleRecord\<lparr>BaseType := ''service'', Type := ''host''\<rparr>] ''services'' True emptyWorld =
     processMetrics exampleDeps [exampleRecord\<lparr>BaseType := ''service''\<rparr>]
       ''services'' True emptyWorld"
    using inst [where x = "exampleRecord\<lparr>BaseType := ''service''\<rparr>" and t = "''host''"
        and endpoint = "''services''"] facts(1)
    by simp
  have fallback: "processMetrics exampleDeps [exampleRecord\<lparr>BaseType := Type exampleRecord\<rparr>]
       ''services'' True emptyWorld =
     processMetrics exampleDeps [exampleRecord] ''services'' True emptyWorld"
    using inst [where x = exampleRecord and endpoint = "''services''"] facts(2)
    by simp
  have mismatch: "processMetrics exampleDeps [exampleRecord] ''hosts'' True emptyWorld =
     processMetrics exampleDeps [] ''hosts'' True emptyWorld"
    using inst [where x = exampleRecord and endpoint = "''hosts''"] facts(2,3)
    by simp
  have seen: "observed exampleDeps [exampleRecord, exampleRecord\<lparr>Type := ''host''\<rparr>,
       exampleRecord\<lparr>BaseType := ''service'', Type := ''host'', Name := ''db''\<rparr>]
       ''services'' True emptyWorld =
     {ServiceMetrics ''web'' ''unknown'' ''active'' ''healthy'' 2,
      ServiceMetrics ''db'' ''unknown'' ''active'' ''healthy'' 2}"
    using inst [where endpoint = "''services''" and data = "[exampleRecord,
        exampleRecord\<lparr>Type := ''host''\<rparr>,
        exampleRecord\<lparr>BaseType := ''service'', Type := ''host'', Name := ''db''\<rparr>]",
        THEN conjunct2, THEN conjunct2, THEN conjunct2, THEN conjunct1,
        unfolded set_filter [symmetric]]
    by (simp add: exampleDeps_def exampleRecord_def emptyWorld_def emission_def insert_commute
        del: set_filter)
  have empty: "processMetrics (exampleDeps\<lparr>checkMetric := checkMetricSpec (\<lambda>endpoint category. True)\<rparr>)
       [exampleRecord\<lparr>Type := []\<rparr>] ''services'' True emptyWorld = (None, emptyWorld)"
    using inst [where x = "exampleRecord\<lparr>Type := []\<rparr>" and endpoint = "''services''"
        and expected = "\<lambda>endpoint category. True"] facts(4,5)
    by (simp add: processMetrics_def)
  from facts primary fallback mismatch seen empty show ?thesis by blast
qed


end
